theory Spec2Isabelle
  imports Complex_Main
begin

section \<open>Pixel-level semantic labelling evaluation\<close>

text \<open>
  A shallow embedding of \<^verbatim>\<open>evalPixelLevelSemanticLabelingCustomAllBetween.py\<close>.

  Conventions of the embedding.
  \<^item> Pixel values and instance ids are read from unsigned image data: they are \<open>nat\<close>.
    Label ids come from the taxonomy and may be negative: they are \<open>int\<close>.
  \<^item> The confusion matrix is created with dtype \<^verbatim>\<open>ulonglong\<close> ("to be sure that there
    are no overflows"); its counts are unbounded naturals here, and the \<^verbatim>\<open>longlong\<close>
    values read from it are \<open>int\<close>.
  \<^item> A Python float is a binary64 value: a rational or the value NaN (type \<open>number\<close>).
    The averages of scores and the instance statistics add, multiply and divide such
    values many times over: there every operation rounds its exact result to the nearest
    binary64 value (\<open>fl\<close>). The one quotient of two counts that makes an IoU score is kept
    as the rational it rounds. Overflow to infinity is not part of the model.
  \<^item> \<^verbatim>\<open>printError\<close> ends the run and an uncaught exception does too: both are \<open>Inl\<close>
    values of type \<open>error\<close>.
\<close>

subsection \<open>Errors and numbers\<close>

datatype error =
    KeyError_id2label int
  | KeyError_avgClassSize string
  | KeyError_classes string
  | IndexError
  | ValueError
  | ZeroDivisionError
  | UnknownLabel nat
  | ListSizeMismatch
  | WidthMismatch
  | HeightMismatch
  | PixelCountMismatch nat nat

datatype number = NaN | Fin rat

fun isnan :: "number \<Rightarrow> bool" where
  "isnan NaN = True"
| "isnan (Fin x) = False"

subsection \<open>Binary floating point\<close>

text \<open>The number of binary digits of a positive integer.\<close>

function bitLength :: "int \<Rightarrow> nat" where
  "bitLength n = (if n \<le> 0 then 0 else Suc (bitLength (n div 2)))"
  by pat_completeness auto
termination
  by (relation "measure nat") auto

declare bitLength.simps [simp del]

definition pow2 :: "int \<Rightarrow> rat" where
  "pow2 e = (if 0 \<le> e then 2 ^ nat e else 1 / 2 ^ nat (- e))"

text \<open>For a positive \<open>x\<close>, the exponent \<open>k\<close> with \<open>2 ^ k \<le> x < 2 ^ (k + 1)\<close>.\<close>

definition ilog2 :: "rat \<Rightarrow> int" where
  "ilog2 x = (if 1 \<le> x then int (bitLength \<lfloor>x\<rfloor>) - 1
              else - int (bitLength (\<lceil>1 / x\<rceil> - 1)))"

text \<open>The nearest integer, the even one of two that are equally near.\<close>

definition roundEven :: "rat \<Rightarrow> int" where
  "roundEven x =
     (let n = \<lfloor>x\<rfloor>; r = x - of_int n
      in if r < 1 / 2 then n else if 1 / 2 < r then n + 1 else if even n then n else n + 1)"

text \<open>Rounding to binary64, as every float operation of Python does with its exact result:
  53 significant binary digits, the smallest exponent of a unit in the last place being
  \<open>-1074\<close>, to the nearest value and to the even one in a tie.\<close>

definition fl :: "rat \<Rightarrow> rat" where
  "fl x =
     (if x = 0 then 0
      else let e = max (ilog2 \<bar>x\<bar> - 52) (- 1074)
           in of_int (roundEven (x / pow2 e)) * pow2 e)"

text \<open>A rational is a binary64 value when rounding leaves it as it is.\<close>

definition representable :: "rat \<Rightarrow> bool" where
  "representable x = (fl x = x)"

subsection \<open>The label taxonomy\<close>

record label =
  name :: string
  id' :: int
  category :: string
  hasInstances :: bool
  ignoreInEval :: bool

text \<open>
  Modelled from the spec: the tables \<^verbatim>\<open>id2label\<close> and \<^verbatim>\<open>category2labels\<close> come from the
  label module (imported through \<^verbatim>\<open>csHelpers\<close>), which is not part of the sources at hand.
  The spec describes the id as the canonical identifier of a label and the category as
  the string grouping labels: \<open>id2label\<close> finds the label of an id, \<open>category2labels\<close>
  lists the labels of a category in table order, and the keys of \<^verbatim>\<open>category2labels\<close>
  are the categories that occur in the table.
\<close>

definition id2label :: "label list \<Rightarrow> int \<Rightarrow> label option" where
  "id2label labels = map_of (map (\<lambda>l. (id' l, l)) labels)"

definition category2labels :: "label list \<Rightarrow> string \<Rightarrow> label list" where
  "category2labels labels c = filter (\<lambda>l. category l = c) labels"

definition category2labels_keys :: "label list \<Rightarrow> string list" where
  "category2labels_keys labels = remdups (map category labels)"

subsection \<open>Accumulators\<close>

type_synonym matrix = "nat list list"

text \<open>\<^verbatim>\<open>generateMatrix\<close> sets \<^verbatim>\<open>args.evalLabels\<close> and returns the zero matrix; \<^verbatim>\<open>max\<close> of an
  empty list raises.\<close>

definition generateMatrix :: "label list \<Rightarrow> error + (int list \<times> matrix)" where
  "generateMatrix labels =
     (let evalLabels = map id' (filter (\<lambda>l. \<not> id' l < 0) labels)
      in if evalLabels = [] then Inl ValueError
         else let maxId = Max (set evalLabels);
                  n = nat (maxId + 1)
              in Inr (evalLabels, replicate n (replicate n 0)))"

record classStats =
  tp :: rat
  tpWeighted :: rat
  fn :: rat
  fnWeighted :: rat

record categoryStats = classStats +
  labelIds :: "int list"

record instanceStats =
  classes :: "string \<Rightarrow> classStats option"
  categories :: "string \<Rightarrow> categoryStats option"

text \<open>The inner loop of \<^verbatim>\<open>generateInstanceStats\<close> over the labels of one category: a
  label with a negative id is passed over (\<^verbatim>\<open>continue\<close>), the first other label without
  instances ends the loop (\<^verbatim>\<open>break\<close>) with \<^verbatim>\<open>allInstances = False\<close>.\<close>

fun scanCategory :: "label list \<Rightarrow> int list \<Rightarrow> bool \<times> int list" where
  "scanCategory [] ids = (True, ids)"
| "scanCategory (l # ls) ids =
     (if id' l < 0 then scanCategory ls ids
      else if \<not> hasInstances l then (False, ids)
      else scanCategory ls (ids @ [id' l]))"

definition addClass :: "label \<Rightarrow> (string \<Rightarrow> classStats option) \<Rightarrow> (string \<Rightarrow> classStats option)" where
  "addClass l cls =
     (if hasInstances l \<and> \<not> ignoreInEval l
      then cls(name l \<mapsto> \<lparr>tp = 0, tpWeighted = 0, fn = 0, fnWeighted = 0\<rparr>)
      else cls)"

definition addCategory ::
  "label list \<Rightarrow> string \<Rightarrow> (string \<Rightarrow> categoryStats option) \<Rightarrow> (string \<Rightarrow> categoryStats option)" where
  "addCategory labels c cats =
     (case scanCategory (category2labels labels c) [] of
        (allInstances, ids) \<Rightarrow>
          if \<not> allInstances then cats
          else cats(c \<mapsto> \<lparr>tp = 0, tpWeighted = 0, fn = 0, fnWeighted = 0, labelIds = ids\<rparr>))"

definition generateInstanceStats :: "label list \<Rightarrow> instanceStats" where
  "generateInstanceStats labels =
     \<lparr>classes = fold addClass labels Map.empty,
      categories = fold (addCategory labels) (category2labels_keys labels) Map.empty\<rparr>"

text \<open>The reading of the category rule under which a member with a negative id, or
  without instances, excludes its category.\<close>

definition memberWithInstances :: "label \<Rightarrow> bool" where
  "memberWithInstances l = (hasInstances l \<and> 0 \<le> id' l)"

text \<open>What the loop tests: a member with a negative id is not looked at.\<close>

definition memberAdmitted :: "label \<Rightarrow> bool" where
  "memberAdmitted l = (id' l < 0 \<or> hasInstances l)"

definition exampleLabels :: "label list" where
  "exampleLabels =
     [\<lparr>name = ''unlabeled'', id' = 0, category = ''void'', hasInstances = False, ignoreInEval = True\<rparr>,
      \<lparr>name = ''road'', id' = 1, category = ''flat'', hasInstances = False, ignoreInEval = False\<rparr>,
      \<lparr>name = ''car'', id' = 2, category = ''vehicle'', hasInstances = True, ignoreInEval = False\<rparr>,
      \<lparr>name = ''license plate'', id' = -1, category = ''vehicle'', hasInstances = False, ignoreInEval = True\<rparr>]"

subsection \<open>Reading the confusion matrix\<close>

text \<open>An index along an axis of length \<open>n\<close>, as numpy reads it: a negative index counts
  from the end, an index outside \<open>[-n, n)\<close> raises.\<close>

definition npIndex :: "nat \<Rightarrow> int \<Rightarrow> error + nat" where
  "npIndex n i =
     (if 0 \<le> i \<and> i < int n then Inr (nat i)
      else if i < 0 \<and> - int n \<le> i then Inr (nat (int n + i))
      else Inl IndexError)"

definition ncols :: "matrix \<Rightarrow> nat" where
  "ncols m = (case m of [] \<Rightarrow> 0 | r # _ \<Rightarrow> length r)"

text \<open>\<^verbatim>\<open>confMatrix[i, j]\<close>\<close>

definition cell :: "matrix \<Rightarrow> int \<Rightarrow> int \<Rightarrow> error + nat" where
  "cell m i j =
     (case npIndex (length m) i of
        Inl e \<Rightarrow> Inl e
      | Inr r \<Rightarrow>
          (case npIndex (ncols m) j of
             Inl e \<Rightarrow> Inl e
           | Inr c \<Rightarrow> Inr (m ! r ! c)))"

text \<open>\<^verbatim>\<open>confMatrix[i, :].sum()\<close>\<close>

definition rowSum :: "matrix \<Rightarrow> int \<Rightarrow> error + nat" where
  "rowSum m i =
     (case npIndex (length m) i of
        Inl e \<Rightarrow> Inl e
      | Inr r \<Rightarrow> Inr (sum_list (m ! r)))"

text \<open>\<^verbatim>\<open>confMatrix[rows, j].sum()\<close> for a list of row indices.\<close>

fun columnSum :: "matrix \<Rightarrow> int list \<Rightarrow> int \<Rightarrow> error + nat" where
  "columnSum m [] j =
     (case npIndex (ncols m) j of Inl e \<Rightarrow> Inl e | Inr c \<Rightarrow> Inr 0)"
| "columnSum m (i # rows) j =
     (case cell m i j of
        Inl e \<Rightarrow> Inl e
      | Inr v \<Rightarrow>
          (case columnSum m rows j of
             Inl e \<Rightarrow> Inl e
           | Inr s \<Rightarrow> Inr (v + s)))"

text \<open>\<^verbatim>\<open>confMatrix.sum()\<close>\<close>

definition matrixSum :: "matrix \<Rightarrow> nat" where
  "matrixSum m = sum_list (map sum_list m)"

text \<open>\<^verbatim>\<open>[l for l in args.evalLabels if not id2label[l].ignoreInEval and extra(l)]\<close>: the
  lookup \<^verbatim>\<open>id2label[l]\<close> comes first for every \<open>l\<close> and raises on an unknown id.\<close>

fun notIgnored :: "label list \<Rightarrow> (int \<Rightarrow> bool) \<Rightarrow> int list \<Rightarrow> error + int list" where
  "notIgnored labels extra [] = Inr []"
| "notIgnored labels extra (l # ls) =
     (case id2label labels l of
        None \<Rightarrow> Inl (KeyError_id2label l)
      | Some lab \<Rightarrow>
          (case notIgnored labels extra ls of
             Inl e \<Rightarrow> Inl e
           | Inr rest \<Rightarrow> Inr (if \<not> ignoreInEval lab \<and> extra l then l # rest else rest)))"

subsection \<open>Scores\<close>

definition getIouScoreForLabel ::
  "label list \<Rightarrow> int \<Rightarrow> matrix \<Rightarrow> int list \<Rightarrow> error + (number \<times> number)" where
  "getIouScoreForLabel labels label confMatrix evalLabels =
     (case id2label labels label of
        None \<Rightarrow> Inl (KeyError_id2label label)
      | Some lab \<Rightarrow>
          if ignoreInEval lab then Inr (NaN, NaN)
          else
            (case cell confMatrix label label of
               Inl e \<Rightarrow> Inl e
             | Inr tpCount \<Rightarrow>
                 (case rowSum confMatrix label of
                    Inl e \<Rightarrow> Inl e
                  | Inr gtCount \<Rightarrow>
                      (case notIgnored labels (\<lambda>l. \<not> l = label) evalLabels of
                         Inl e \<Rightarrow> Inl e
                       | Inr rows \<Rightarrow>
                           (case columnSum confMatrix rows label of
                              Inl e \<Rightarrow> Inl e
                            | Inr fpCount \<Rightarrow>
                                (let tpL = int tpCount;
                                     gt = int gtCount;
                                     fnL = gt - tpL;
                                     fpL = int fpCount;
                                     denom = tpL + fpL + fnL
                                 in if denom = 0 then Inr (NaN, NaN)
                                    else Inr (Fin (of_int tpL / of_int denom), Fin (of_int gt))))))))"

text \<open>A score collection is a dictionary from a name to the pair (score, weight); the
  averages only walk over its entries, here in insertion order. The weights are the
  integer pixel counts of a row or the float sums of the instance statistics; integers
  below \<open>2 ^ 53\<close> and their sums add alike as integers and as floats.\<close>

type_synonym scoreList = "(string \<times> number \<times> number) list"

fun scoreLoop :: "scoreList \<Rightarrow> nat \<times> rat \<Rightarrow> nat \<times> rat" where
  "scoreLoop [] acc = acc"
| "scoreLoop ((key, NaN, w) # rest) (validScores, scoreSum) =
     scoreLoop rest (validScores, scoreSum)"
| "scoreLoop ((key, Fin x, w) # rest) (validScores, scoreSum) =
     scoreLoop rest (validScores + 1, fl (scoreSum + x))"

definition getScoreAverage :: "scoreList \<Rightarrow> number" where
  "getScoreAverage scoreList =
     (case scoreLoop scoreList (0, 0) of
        (validScores, scoreSum) \<Rightarrow>
          if validScores = 0 then NaN else Fin (fl (scoreSum / fl (of_nat validScores))))"

text \<open>Float addition, multiplication and division; an operation on NaN gives NaN.\<close>

fun add :: "number \<Rightarrow> number \<Rightarrow> number" where
  "add (Fin a) (Fin b) = Fin (fl (a + b))"
| "add _ _ = NaN"

fun mul :: "number \<Rightarrow> number \<Rightarrow> number" where
  "mul (Fin a) (Fin b) = Fin (fl (a * b))"
| "mul _ _ = NaN"

text \<open>Division is only ever reached with a divisor that was tested against zero.\<close>

fun divide_number :: "number \<Rightarrow> number \<Rightarrow> number" where
  "divide_number (Fin a) (Fin b) = (if b = 0 then NaN else Fin (fl (a / b)))"
| "divide_number _ _ = NaN"

fun freqScoreLoop :: "scoreList \<Rightarrow> number \<times> number \<Rightarrow> number \<times> number" where
  "freqScoreLoop [] acc = acc"
| "freqScoreLoop ((key, NaN, w) # rest) (validScores, scoreSum) =
     freqScoreLoop rest (validScores, scoreSum)"
| "freqScoreLoop ((key, Fin x, w) # rest) (validScores, scoreSum) =
     freqScoreLoop rest (add validScores w, add scoreSum (mul (Fin x) w))"

definition getFreqScoreAverage :: "scoreList \<Rightarrow> number" where
  "getFreqScoreAverage scoreList =
     (case freqScoreLoop scoreList (Fin 0, Fin 0) of
        (validScores, scoreSum) \<Rightarrow>
          if validScores = Fin 0 then NaN else divide_number scoreSum validScores)"

text \<open>The entries of a collection that count: those with a score other than NaN.\<close>

fun validEntries :: "scoreList \<Rightarrow> (rat \<times> number) list" where
  "validEntries [] = []"
| "validEntries ((key, NaN, w) # rest) = validEntries rest"
| "validEntries ((key, Fin x, w) # rest) = (x, w) # validEntries rest"

fun weightOf :: "rat \<times> number \<Rightarrow> rat" where
  "weightOf (x, Fin w) = w"
| "weightOf (x, NaN) = 0"

definition finiteWeight :: "rat \<times> number \<Rightarrow> bool" where
  "finiteWeight e = (\<not> isnan (snd e))"

definition scoreIs :: "rat \<Rightarrow> rat \<times> number \<Rightarrow> bool" where
  "scoreIs v e = (fst e = v)"

definition weightedScore :: "rat \<times> number \<Rightarrow> rat" where
  "weightedScore e = fst e * weightOf e"

text \<open>The float sum of a list, added one by one from \<^verbatim>\<open>0.0\<close>, of rationals and of
  numbers.\<close>

definition floatSum :: "rat list \<Rightarrow> rat" where
  "floatSum xs = foldl (\<lambda>s x. fl (s + x)) 0 xs"

definition numberSum :: "number list \<Rightarrow> number" where
  "numberSum ns = foldl add (Fin 0) ns"

text \<open>The float product \<^verbatim>\<open>score * weight\<close> of an entry.\<close>

definition weighted :: "rat \<times> number \<Rightarrow> number" where
  "weighted e = mul (Fin (fst e)) (snd e)"

text \<open>No addition rounds: every partial sum, from \<open>s\<close> on, is a binary64 value. No product
  rounds: the exact product of score and weight is one.\<close>

fun exactSums :: "rat \<Rightarrow> rat list \<Rightarrow> bool" where
  "exactSums s [] = True"
| "exactSums s (x # xs) = (representable (s + x) \<and> exactSums (s + x) xs)"

definition exactProduct :: "rat \<times> number \<Rightarrow> bool" where
  "exactProduct e = representable (weightedScore e)"

text \<open>The binary64 value nearest to one tenth, which is what \<^verbatim>\<open>0.1\<close> and \<^verbatim>\<open>1.0 / 10\<close> are.\<close>

definition tenth :: rat where
  "tenth = 3602879701896397 / 36028797018963968"

definition tenths :: scoreList where
  "tenths = [(''road'', Fin tenth, Fin 10), (''sidewalk'', Fin tenth, Fin 20), (''car'', Fin tenth, Fin 3)]"

text \<open>Whether the label of an id is excluded from scoring.\<close>

definition ignored :: "label list \<Rightarrow> int \<Rightarrow> bool" where
  "ignored labels l = (case id2label labels l of None \<Rightarrow> False | Some lab \<Rightarrow> ignoreInEval lab)"

definition exampleMatrix :: matrix where
  "exampleMatrix = [[5, 0, 3], [1, 1, 0], [0, 1, 2]]"

definition exampleScores :: scoreList where
  "exampleScores = [(''road'', Fin (1/2), Fin 3), (''sky'', NaN, NaN), (''car'', Fin (1/2), Fin 1)]"

subsection \<open>Evaluating one pair of images\<close>

text \<open>A loaded single-channel image: its size and its pixels row by row, as \<^verbatim>\<open>getdata()\<close>
  lists them and as \<^verbatim>\<open>np.array\<close> holds them (with shape height by width). Loading itself
  (and its failures) is outside the model.\<close>

record image =
  imgWidth :: nat
  imgHeight :: nat
  getdata :: "nat list"

record args =
  args_evalLabels :: "int list"
  args_evalInstLevelScore :: bool
  args_evalPixelAccuracy :: bool
  args_avgClassSize :: "string \<Rightarrow> rat option"

text \<open>The table \<^verbatim>\<open>args.avgClassSize\<close> as the script sets it: each size is the float
  nearest to the decimal written in the script.\<close>

definition avgClassSize_default :: "string \<Rightarrow> rat option" where
  "avgClassSize_default =
     map_of
       [(''bicycle'', fl (46723249222261 / 10000000000)),
        (''caravan'', fl (367718241758242 / 10000000000)),
        (''motorcycle'', fl (62987200839748 / 10000000000)),
        (''rider'', fl (39304788056518 / 10000000000)),
        (''bus'', fl (357321511111111 / 10000000000)),
        (''train'', fl (675837075812274 / 10000000000)),
        (''car'', fl (127940202738185 / 10000000000)),
        (''person'', fl (34624756337644 / 10000000000)),
        (''truck'', fl (278551264367816 / 10000000000)),
        (''trailer'', fl (169269763313609 / 10000000000))]"

text \<open>The pixel loop of \<^verbatim>\<open>evaluatePair\<close> without C support (the module
  \<^verbatim>\<open>addToConfusionMatrix\<close> is not part of the sources at hand, so its import fails and
  \<^verbatim>\<open>CSUPPORT\<close> is false). The matrix is updated in place, pixel by pixel: the result is the
  matrix as the loop leaves it, and the error that ended the loop, if any. The pairs are
  (ground truth, prediction).\<close>

fun pixelLoop :: "int list \<Rightarrow> (nat \<times> nat) list \<Rightarrow> matrix \<Rightarrow> matrix \<times> error option" where
  "pixelLoop evalLabels [] confMatrix = (confMatrix, None)"
| "pixelLoop evalLabels ((groundTruthImgPixel, predictionImgPixel) # rest) confMatrix =
     (if int groundTruthImgPixel \<notin> set evalLabels
      then (confMatrix, Some (UnknownLabel groundTruthImgPixel))
      else if \<not> groundTruthImgPixel < length confMatrix then (confMatrix, Some IndexError)
      else if \<not> predictionImgPixel < length (confMatrix ! groundTruthImgPixel)
      then (confMatrix, Some IndexError)
      else pixelLoop evalLabels rest
             (confMatrix[groundTruthImgPixel :=
                (confMatrix ! groundTruthImgPixel)[predictionImgPixel :=
                   confMatrix ! groundTruthImgPixel ! predictionImgPixel + 1]]))"

text \<open>\<^verbatim>\<open>np.unique(instanceNp[instanceNp > 1000])\<close>: the distinct ids above 1000, ascending.\<close>

definition instList :: "nat list \<Rightarrow> nat list" where
  "instList instanceNp = sort (remdups (filter (\<lambda>i. 1000 < i) instanceNp))"

text \<open>The pixels of an instance: (instance id, prediction) pairs with the given id.\<close>

definition maskCount :: "nat \<Rightarrow> (nat \<Rightarrow> bool) \<Rightarrow> nat list \<Rightarrow> nat list \<Rightarrow> nat" where
  "maskCount instId hit instanceNp predictionNp =
     length (filter (\<lambda>(i, p). i = instId \<and> hit p) (zip instanceNp predictionNp))"

text \<open>The four updates \<^verbatim>\<open>+=\<close> of an entry: the entry holds floats, the counts are
  integers, and \<^verbatim>\<open>float(tp) * weight\<close> is a float product.\<close>

definition addStats :: "classStats \<Rightarrow> nat \<Rightarrow> nat \<Rightarrow> rat \<Rightarrow> classStats" where
  "addStats e tpCount fnCount weight =
     \<lparr>tp = fl (tp e + fl (of_nat tpCount)),
      tpWeighted = fl (tpWeighted e + fl (fl (of_nat tpCount) * weight)),
      fn = fl (fn e + fl (of_nat fnCount)),
      fnWeighted = fl (fnWeighted e + fl (fl (of_nat fnCount) * weight))\<rparr>"

definition addCategoryStats :: "categoryStats \<Rightarrow> nat \<Rightarrow> nat \<Rightarrow> rat \<Rightarrow> categoryStats" where
  "addCategoryStats e tpCount fnCount weight =
     \<lparr>tp = fl (tp e + fl (of_nat tpCount)),
      tpWeighted = fl (tpWeighted e + fl (fl (of_nat tpCount) * weight)),
      fn = fl (fn e + fl (of_nat fnCount)),
      fnWeighted = fl (fnWeighted e + fl (fl (of_nat fnCount) * weight)),
      labelIds = labelIds e\<rparr>"

text \<open>The body of the loop over \<^verbatim>\<open>instList\<close>. \<open>masks\<close> are the label ids of each tracked
  category, from which \<^verbatim>\<open>categoryMasks\<close> is built before the loop. The lookups
  \<^verbatim>\<open>id2label[labelId]\<close>, \<^verbatim>\<open>args.avgClassSize[label.name]\<close> and
  \<^verbatim>\<open>instanceStats["classes"][label.name]\<close> raise on a missing key; a mask of another
  shape than the prediction raises on \<^verbatim>\<open>predictionNp[mask]\<close>, and a division by an
  \<open>instSize\<close> of zero raises too (\<open>instSize\<close> is at least 1 for an id taken from the instance
  image).\<close>

definition instanceStep ::
  "label list \<Rightarrow> (string \<Rightarrow> rat option) \<Rightarrow> (string \<Rightarrow> int list option) \<Rightarrow> image \<Rightarrow> image \<Rightarrow>
   nat \<Rightarrow> instanceStats \<Rightarrow> error + instanceStats" where
  "instanceStep labels avg masks predictionImg instanceImg instId instanceStats =
     (let labelId = int (instId div 1000) in
      case id2label labels labelId of
        None \<Rightarrow> Inl (KeyError_id2label labelId)
      | Some label \<Rightarrow>
          if ignoreInEval label then Inr instanceStats
          else
            (let instSize = maskCount instId (\<lambda>p. True) (getdata instanceImg) (getdata instanceImg) in
             if imgHeight instanceImg \<noteq> imgHeight predictionImg
                \<or> imgWidth instanceImg \<noteq> imgWidth predictionImg
             then Inl IndexError
             else
               (let tpCount = maskCount instId (\<lambda>p. int p = labelId)
                                (getdata instanceImg) (getdata predictionImg);
                    fnCount = instSize - tpCount in
                case avg (name label) of
                  None \<Rightarrow> Inl (KeyError_avgClassSize (name label))
                | Some a \<Rightarrow>
                    if instSize = 0 then Inl ZeroDivisionError
                    else
                    (let weight = fl (a / fl (of_nat instSize)) in
                     case classes instanceStats (name label) of
                       None \<Rightarrow> Inl (KeyError_classes (name label))
                     | Some e \<Rightarrow>
                         (let stats1 = instanceStats
                                \<lparr>classes := (classes instanceStats)
                                   (name label \<mapsto> addStats e tpCount fnCount weight)\<rparr> in
                          case categories stats1 (category label) of
                            None \<Rightarrow> Inr stats1
                          | Some c \<Rightarrow>
                              (case masks (category label) of
                                 None \<Rightarrow> Inr stats1
                               | Some ids \<Rightarrow>
                                   (let catTp = maskCount instId (\<lambda>p. int p \<in> set ids)
                                                  (getdata instanceImg) (getdata predictionImg);
                                        catFn = instSize - catTp
                                    in Inr (stats1
                                         \<lparr>categories := (categories stats1)
                                            (category label \<mapsto>
                                               addCategoryStats c catTp catFn weight)\<rparr>))))))))"

fun instanceLoop ::
  "label list \<Rightarrow> (string \<Rightarrow> rat option) \<Rightarrow> (string \<Rightarrow> int list option) \<Rightarrow> image \<Rightarrow> image \<Rightarrow>
   nat list \<Rightarrow> instanceStats \<Rightarrow> error + instanceStats" where
  "instanceLoop labels avg masks predictionImg instanceImg [] instanceStats = Inr instanceStats"
| "instanceLoop labels avg masks predictionImg instanceImg (instId # rest) instanceStats =
     (case instanceStep labels avg masks predictionImg instanceImg instId instanceStats of
        Inl e \<Rightarrow> Inl e
      | Inr stats' \<Rightarrow> instanceLoop labels avg masks predictionImg instanceImg rest stats')"

text \<open>The block under \<^verbatim>\<open>if args.evalInstLevelScore\<close>.\<close>

definition evaluateInstances ::
  "label list \<Rightarrow> (string \<Rightarrow> rat option) \<Rightarrow> image \<Rightarrow> image \<Rightarrow> instanceStats \<Rightarrow>
   error + instanceStats" where
  "evaluateInstances labels avg predictionImg instanceImg instanceStats =
     instanceLoop labels avg (\<lambda>c. map_option labelIds (categories instanceStats c))
       predictionImg instanceImg (instList (getdata instanceImg)) instanceStats"

record perImage =
  nbNotIgnoredPixels :: nat
  nbCorrectPixels :: nat

text \<open>The block under \<^verbatim>\<open>if args.evalPixelAccuracy\<close>: \<^verbatim>\<open>np.in1d\<close> is called with
  \<^verbatim>\<open>invert=True\<close>, and \<^verbatim>\<open>nbCorrectPixels\<close> is the count of \<^verbatim>\<open>erroneousPixels\<close>.\<close>

definition pixelAccuracy :: "label list \<Rightarrow> int list \<Rightarrow> image \<Rightarrow> image \<Rightarrow> error + perImage" where
  "pixelAccuracy labels evalLabels predictionImg groundTruthImg =
     (case notIgnored labels (\<lambda>l. True) evalLabels of
        Inl e \<Rightarrow> Inl e
      | Inr notIgnoredLabels \<Rightarrow>
          (let notIgnoredPixels = map (\<lambda>g. int g \<notin> set notIgnoredLabels) (getdata groundTruthImg);
               erroneousPixels =
                 map (\<lambda>(n, p, g). n \<and> p \<noteq> g)
                   (zip notIgnoredPixels (zip (getdata predictionImg) (getdata groundTruthImg)))
           in Inr \<lparr>nbNotIgnoredPixels = length (filter (\<lambda>b. b) notIgnoredPixels),
                   nbCorrectPixels = length (filter (\<lambda>b. b) erroneousPixels)\<rparr>))"

record evalState =
  st_confMatrix :: matrix
  st_instStats :: instanceStats
  st_perImageStats :: "string \<Rightarrow> perImage option"

record pair =
  pair_predictionImgFileName :: string
  pair_predictionImg :: image
  pair_groundTruthImg :: image
  pair_instanceImg :: image

definition evaluatePair :: "label list \<Rightarrow> args \<Rightarrow> pair \<Rightarrow> evalState \<Rightarrow> error + (nat \<times> evalState)" where
  "evaluatePair labels a p st =
     (if imgWidth (pair_predictionImg p) \<noteq> imgWidth (pair_groundTruthImg p) then Inl WidthMismatch
      else if imgHeight (pair_predictionImg p) \<noteq> imgHeight (pair_groundTruthImg p) then Inl HeightMismatch
      else
        (let nbPixels = imgWidth (pair_predictionImg p) * imgHeight (pair_predictionImg p) in
         case pixelLoop (args_evalLabels a)
                (zip (getdata (pair_groundTruthImg p)) (getdata (pair_predictionImg p))) (st_confMatrix st) of
           (m, Some e) \<Rightarrow> Inl e
         | (m, None) \<Rightarrow>
             (case (if args_evalInstLevelScore a
                    then evaluateInstances labels (args_avgClassSize a) (pair_predictionImg p)
                           (pair_instanceImg p) (st_instStats st)
                    else Inr (st_instStats st)) of
                Inl e \<Rightarrow> Inl e
              | Inr stats \<Rightarrow>
                  (if args_evalPixelAccuracy a
                   then (case pixelAccuracy labels (args_evalLabels a) (pair_predictionImg p)
                                (pair_groundTruthImg p) of
                           Inl e \<Rightarrow> Inl e
                         | Inr entry \<Rightarrow>
                             Inr (nbPixels,
                                  \<lparr>st_confMatrix = m, st_instStats = stats,
                                   st_perImageStats =
                                     (st_perImageStats st)(pair_predictionImgFileName p \<mapsto> entry)\<rparr>))
                   else Inr (nbPixels,
                             \<lparr>st_confMatrix = m, st_instStats = stats,
                              st_perImageStats = st_perImageStats st\<rparr>)))))"

text \<open>The loop of \<^verbatim>\<open>evaluateImgLists\<close> over the pairs, with its sanity check after each
  pair.\<close>

fun evaluateLoop ::
  "label list \<Rightarrow> args \<Rightarrow> pair list \<Rightarrow> evalState \<times> nat \<Rightarrow> error + (evalState \<times> nat)" where
  "evaluateLoop labels a [] s = Inr s"
| "evaluateLoop labels a (p # ps) (st, nbPixels) =
     (case evaluatePair labels a p st of
        Inl e \<Rightarrow> Inl e
      | Inr (n, st') \<Rightarrow>
          if matrixSum (st_confMatrix st') \<noteq> nbPixels + n
          then Inl (PixelCountMismatch (matrixSum (st_confMatrix st')) (nbPixels + n))
          else evaluateLoop labels a ps (st', nbPixels + n))"

text \<open>\<^verbatim>\<open>evaluateImgLists\<close> up to the second sanity check, after which the scores are
  computed from the final state. The lists are the loaded prediction images with their
  file names, and the loaded ground truth images with their instance images.\<close>

definition makePair :: "string \<times> image \<Rightarrow> image \<times> image \<Rightarrow> pair" where
  "makePair pr gt =
     \<lparr>pair_predictionImgFileName = fst pr, pair_predictionImg = snd pr,
      pair_groundTruthImg = fst gt, pair_instanceImg = snd gt\<rparr>"

definition evaluateImgLists ::
  "label list \<Rightarrow> args \<Rightarrow> (string \<times> image) list \<Rightarrow> (image \<times> image) list \<Rightarrow>
   error + (evalState \<times> nat)" where
  "evaluateImgLists labels a predictionImgList groundTruthImgList =
     (if length predictionImgList \<noteq> length groundTruthImgList then Inl ListSizeMismatch
      else
        (case generateMatrix labels of
           Inl e \<Rightarrow> Inl e
         | Inr (ev, m) \<Rightarrow>
             (case evaluateLoop labels (a\<lparr>args_evalLabels := ev\<rparr>)
                     (map2 makePair predictionImgList groundTruthImgList)
                     (\<lparr>st_confMatrix = m, st_instStats = generateInstanceStats labels,
                       st_perImageStats = Map.empty\<rparr>, 0) of
                Inl e \<Rightarrow> Inl e
              | Inr (st, nbPixels) \<Rightarrow>
                  if matrixSum (st_confMatrix st) \<noteq> nbPixels
                  then Inl (PixelCountMismatch (matrixSum (st_confMatrix st)) nbPixels)
                  else Inr (st, nbPixels))))"

text \<open>An image is well formed when it has as many pixels as its size says, which is what
  an image library guarantees.\<close>

definition wellFormed :: "image \<Rightarrow> bool" where
  "wellFormed img = (length (getdata img) = imgWidth img * imgHeight img)"

definition pairPixels :: "pair \<Rightarrow> nat" where
  "pairPixels p = imgWidth (pair_predictionImg p) * imgHeight (pair_predictionImg p)"

text \<open>The sum of width times height over a list of prediction images.\<close>

definition pixelCount :: "(string \<times> image) list \<Rightarrow> nat" where
  "pixelCount predictionImgList =
     sum_list (map (\<lambda>p. imgWidth (snd p) * imgHeight (snd p)) predictionImgList)"

definition exampleArgs :: args where
  "exampleArgs =
     \<lparr>args_evalLabels = [], args_evalInstLevelScore = True, args_evalPixelAccuracy = False,
      args_avgClassSize = avgClassSize_default\<rparr>"

definition examplePredictions :: "(string \<times> image) list" where
  "examplePredictions = [(''pred.png'', \<lparr>imgWidth = 2, imgHeight = 1, getdata = [1, 2]\<rparr>)]"

definition exampleGroundTruths :: "(image \<times> image) list" where
  "exampleGroundTruths =
     [(\<lparr>imgWidth = 2, imgHeight = 1, getdata = [1, 1]\<rparr>,
       \<lparr>imgWidth = 2, imgHeight = 1, getdata = [0, 0]\<rparr>)]"




text \<open>The state in which \<^verbatim>\<open>evaluateImgLists\<close> enters its loop, for a given matrix.\<close>

definition emptyState :: "label list \<Rightarrow> matrix \<Rightarrow> evalState" where
  "emptyState labels m =
     \<lparr>st_confMatrix = m, st_instStats = generateInstanceStats labels,
      st_perImageStats = Map.empty\<rparr>"

subsection \<open>The instance accumulation in the words of the specification\<close>

text \<open>What one instance id does to the table of classes, read off the specification: the
  label of the id is the id divided by 1000; an ignored label changes nothing; otherwise
  the entry of the label's name grows by \<open>tp\<close>, \<open>fn = instSize - tp\<close>, \<open>tp * weight\<close> and
  \<open>fn * weight\<close>, where \<open>instSize\<close> counts the pixels of the instance, \<open>tp\<close> those of them
  that are predicted as the label, and \<open>weight\<close> is the average size of the label's name
  over \<open>instSize\<close>. The sums, products and the quotient are float operations.\<close>

definition classUpdate ::
  "label list \<Rightarrow> (string \<Rightarrow> rat option) \<Rightarrow> image \<Rightarrow> image \<Rightarrow> nat \<Rightarrow>
   (string \<Rightarrow> classStats option) \<Rightarrow> (string \<Rightarrow> classStats option)" where
  "classUpdate labels avg predictionImg instanceImg instId cls =
     (case id2label labels (int (instId div 1000)) of
        None \<Rightarrow> cls
      | Some label \<Rightarrow>
          if ignoreInEval label then cls
          else
            (case (cls (name label), avg (name label)) of
               (Some e, Some a) \<Rightarrow>
                 (let instSize = length (filter (\<lambda>i. i = instId) (getdata instanceImg));
                      tpCount = length (filter (\<lambda>(i, p). i = instId \<and> int p = id' label)
                                  (zip (getdata instanceImg) (getdata predictionImg)));
                      fnCount = instSize - tpCount;
                      weight = fl (a / fl (of_nat instSize))
                  in cls(name label \<mapsto>
                       \<lparr>tp = fl (tp e + fl (of_nat tpCount)),
                        tpWeighted = fl (tpWeighted e + fl (fl (of_nat tpCount) * weight)),
                        fn = fl (fn e + fl (of_nat fnCount)),
                        fnWeighted = fl (fnWeighted e + fl (fl (of_nat fnCount) * weight))\<rparr>))
             | _ \<Rightarrow> cls))"

text \<open>An instance id is tracked when its label is in the table and, unless the label is
  ignored, the label's name has an entry in the table of classes and an average size.\<close>

definition tracked ::
  "label list \<Rightarrow> (string \<Rightarrow> rat option) \<Rightarrow> (string \<Rightarrow> classStats option) \<Rightarrow> nat \<Rightarrow> bool" where
  "tracked labels avg cls instId =
     (case id2label labels (int (instId div 1000)) of
        None \<Rightarrow> False
      | Some label \<Rightarrow>
          ignoreInEval label \<or> (\<exists>e. cls (name label) = Some e) \<and> (\<exists>a. avg (name label) = Some a))"

text \<open>The errors that are a failed dictionary lookup.\<close>

fun isKeyError :: "error \<Rightarrow> bool" where
  "isKeyError (KeyError_id2label l) = True"
| "isKeyError (KeyError_avgClassSize n) = True"
| "isKeyError (KeyError_classes n) = True"
| "isKeyError e = False"

text \<open>Two cars, of two pixels and of one, with one pixel of the first predicted as road;
  and an instance of road, a label that is evaluated but has no instances.\<close>

definition carInstances :: image where
  "carInstances = \<lparr>imgWidth = 4, imgHeight = 1, getdata = [2001, 2001, 0, 2002]\<rparr>"

definition carPrediction :: image where
  "carPrediction = \<lparr>imgWidth = 4, imgHeight = 1, getdata = [2, 1, 1, 2]\<rparr>"

definition roadInstances :: image where
  "roadInstances = \<lparr>imgWidth = 4, imgHeight = 1, getdata = [1001, 1001, 0, 2002]\<rparr>"

definition exampleAvg :: "string \<Rightarrow> rat option" where
  "exampleAvg = map_of [(''car'', 8), (''road'', 16)]"

text \<open>A pair for the pixel accuracy: three pixels of road, one of them predicted as car, and
  one pixel that is unlabeled.\<close>

definition accuracyPair :: pair where
  "accuracyPair =
     \<lparr>pair_predictionImgFileName = ''pred.png'',
      pair_predictionImg = \<lparr>imgWidth = 4, imgHeight = 1, getdata = [1, 1, 2, 0]\<rparr>,
      pair_groundTruthImg = \<lparr>imgWidth = 4, imgHeight = 1, getdata = [1, 1, 1, 0]\<rparr>,
      pair_instanceImg = \<lparr>imgWidth = 4, imgHeight = 1, getdata = [0, 0, 0, 0]\<rparr>\<rparr>"

definition accuracyArgs :: args where
  "accuracyArgs = exampleArgs\<lparr>args_evalLabels := [0, 1, 2], args_evalPixelAccuracy := True\<rparr>"

section \<open>Instance statistics at construction\<close>

lemma scanCategory_fst:
  "fst (scanCategory ls ids) = list_all memberAdmitted ls"
  by (induction ls arbitrary: ids) (auto simp: memberAdmitted_def)

lemma scanCategory_snd:
  "list_all memberAdmitted ls \<Longrightarrow>
   snd (scanCategory ls ids) = ids @ map id' (filter (\<lambda>l. \<not> id' l < 0) ls)"
  by (induction ls arbitrary: ids) (auto simp: memberAdmitted_def)

lemma fold_addCategory:
  "fold (addCategory labels) ks m c =
     (if c \<in> set ks \<and> list_all memberAdmitted (category2labels labels c)
      then Some \<lparr>tp = 0, tpWeighted = 0, fn = 0, fnWeighted = 0,
                 labelIds = map id' (filter (\<lambda>l. \<not> id' l < 0) (category2labels labels c))\<rparr>
      else m c)"
proof (induction ks arbitrary: m)
  case Nil
  then show ?case by simp
next
  case (Cons k ks)
  obtain b ids where s: "scanCategory (category2labels labels k) [] = (b, ids)"
    by (cases "scanCategory (category2labels labels k) []")
  have b: "b = list_all memberAdmitted (category2labels labels k)"
    using scanCategory_fst [of "category2labels labels k" "[]"] s by simp
  have ids: "b \<Longrightarrow> ids = map id' (filter (\<lambda>l. \<not> id' l < 0) (category2labels labels k))"
    using scanCategory_snd [of "category2labels labels k" "[]"] s b by simp
  show ?case
    using Cons.IH [of "addCategory labels k m"] s b ids
    by (auto simp: addCategory_def)
qed

text \<open>
  C9 (as amended). \<open>categories\<close> has an entry exactly for the categories of the table all
  of whose members with a non-negative id have instances; the entry is zero-initialised
  and its \<open>labelIds\<close> are the non-negative member ids in table order. A member with a
  negative id is passed over and does not exclude its category.
\<close>

theorem generateInstanceStats_categories:
  "categories (generateInstanceStats labels) c =
     (if c \<in> set (map category labels) \<and> list_all memberAdmitted (category2labels labels c)
      then Some \<lparr>tp = 0, tpWeighted = 0, fn = 0, fnWeighted = 0,
                 labelIds = map id' (filter (\<lambda>l. \<not> id' l < 0) (category2labels labels c))\<rparr>
      else None)"
  by (simp add: generateInstanceStats_def fold_addCategory category2labels_keys_def)

theorem generateInstanceStats_categories_witness:
  "categories (generateInstanceStats exampleLabels) ''vehicle'' =
     Some \<lparr>tp = 0, tpWeighted = 0, fn = 0, fnWeighted = 0, labelIds = [2]\<rparr>
   \<and> categories (generateInstanceStats exampleLabels) ''flat'' = None"
  using generateInstanceStats_categories [of exampleLabels "''vehicle''"]
    generateInstanceStats_categories [of exampleLabels "''flat''"]
  by (simp add: exampleLabels_def category2labels_def memberAdmitted_def)

text \<open>The claim as stated fails: the category \<open>vehicle\<close> of the example table has the
  member \<open>license plate\<close>, with id \<open>-1\<close> and without instances, and is tracked all the
  same.\<close>

theorem generateInstanceStats_categories_counterexample:
  "\<not> list_all memberWithInstances (category2labels exampleLabels ''vehicle'')
   \<and> categories (generateInstanceStats exampleLabels) ''vehicle'' \<noteq> None"
  by (simp add: generateInstanceStats_def category2labels_keys_def addCategory_def
      exampleLabels_def category2labels_def memberWithInstances_def)

section \<open>Intersection over union of a label\<close>

lemma id2label_known: "l \<in> id' ` set labels \<Longrightarrow> \<exists>lab. id2label labels l = Some lab"
  unfolding id2label_def
  by (cases "map_of (map (\<lambda>l. (id' l, l)) labels) l") (auto simp: map_of_eq_None_iff image_image)

lemma generateMatrix_evalLabels:
  assumes "generateMatrix labels = Inr (evalLabels, zeros)" "l \<in> set evalLabels"
  shows "0 \<le> l" "l < int (length zeros)" "\<exists>lab. id2label labels l = Some lab"
    "list_all (\<lambda>r. length r = length zeros) zeros"
proof -
  let ?ev = "map id' (filter (\<lambda>l. \<not> id' l < 0) labels)"
  from assms(1) have ev: "evalLabels = ?ev" and ne: "?ev \<noteq> []"
    and z: "zeros = replicate (nat (Max (set ?ev) + 1)) (replicate (nat (Max (set ?ev) + 1)) 0)"
    by (auto simp: generateMatrix_def Let_def split: if_splits)
  from assms(2) ev show "0 \<le> l" by auto
  have "l \<le> Max (set ?ev)" using assms(2) ev by (intro Max_ge) auto
  then show "l < int (length zeros)" using z \<open>0 \<le> l\<close> by simp
  have "l \<in> id' ` set labels" using assms(2) ev by auto
  then show "\<exists>lab. id2label labels l = Some lab" by (rule id2label_known)
  show "list_all (\<lambda>r. length r = length zeros) zeros"
    using z by (simp add: list_all_iff)
qed

lemma npIndex_in_range: "0 \<le> i \<Longrightarrow> i < int n \<Longrightarrow> npIndex n i = Inr (nat i)"
  by (simp add: npIndex_def)

lemma ncols_square: "length m = n \<Longrightarrow> list_all (\<lambda>r. length r = n) m \<Longrightarrow> ncols m = n"
  by (cases m) (auto simp: ncols_def)

lemma cell_in_range:
  "length m = n \<Longrightarrow> list_all (\<lambda>r. length r = n) m \<Longrightarrow> 0 \<le> i \<Longrightarrow> i < int n \<Longrightarrow>
   0 \<le> j \<Longrightarrow> j < int n \<Longrightarrow> cell m i j = Inr (m ! nat i ! nat j)"
  by (simp add: cell_def npIndex_in_range ncols_square)

lemma rowSum_in_range:
  "0 \<le> i \<Longrightarrow> i < int (length m) \<Longrightarrow> rowSum m i = Inr (sum_list (m ! nat i))"
  by (simp add: rowSum_def npIndex_in_range)

lemma columnSum_in_range:
  "length m = n \<Longrightarrow> list_all (\<lambda>r. length r = n) m \<Longrightarrow> 0 \<le> j \<Longrightarrow> j < int n \<Longrightarrow>
   list_all (\<lambda>i. 0 \<le> i \<and> i < int n) rows \<Longrightarrow>
   columnSum m rows j = Inr (\<Sum>i\<leftarrow>rows. m ! nat i ! nat j)"
  by (induction rows) (simp_all add: cell_in_range npIndex_in_range ncols_square)

lemma notIgnored_known:
  "list_all (\<lambda>l. \<exists>lab. id2label labels l = Some lab) ls \<Longrightarrow>
   notIgnored labels extra ls = Inr (filter (\<lambda>l. \<not> ignored labels l \<and> extra l) ls)"
  by (induction ls) (auto simp: ignored_def)

text \<open>
  C1. For a label id of \<open>evalLabels\<close> that is not ignored, and a confusion matrix of the
  shape \<^verbatim>\<open>generateMatrix\<close> creates, the score is \<open>TP / (TP + FP + FN)\<close> with \<open>TP\<close> the
  diagonal entry, \<open>FN\<close> the row sum minus \<open>TP\<close>, and \<open>FP\<close> the sum of the label's column over
  the rows of \<open>evalLabels\<close> that are neither ignored nor the label itself; the result is
  \<open>(NaN, NaN)\<close> when the denominator is zero, and its second component is the row sum
  otherwise.
\<close>

theorem getIouScoreForLabel_iou:
  assumes gm: "generateMatrix labels = Inr (evalLabels, zeros)"
    and rows: "length confMatrix = length zeros"
    and cols: "list_all (\<lambda>r. length r = length zeros) confMatrix"
    and mem: "label \<in> set evalLabels"
    and ni: "\<not> ignored labels label"
  shows "getIouScoreForLabel labels label confMatrix evalLabels =
     (let TP = int (confMatrix ! nat label ! nat label);
          GT = int (sum_list (confMatrix ! nat label));
          FN = GT - TP;
          FP = (\<Sum>r\<leftarrow>filter (\<lambda>l. \<not> ignored labels l \<and> l \<noteq> label) evalLabels.
                  int (confMatrix ! nat r ! nat label))
      in if TP + FP + FN = 0 then Inr (NaN, NaN)
         else Inr (Fin (of_int TP / of_int (TP + FP + FN)), Fin (of_int GT)))"
proof -
  let ?n = "length zeros"
  from generateMatrix_evalLabels [OF gm mem]
  obtain lab where l0: "0 \<le> label" and l1: "label < int ?n" and lab: "id2label labels label = Some lab"
    by blast
  from ni lab have nig: "\<not> ignoreInEval lab" by (simp add: ignored_def)
  have all_known: "list_all (\<lambda>l. \<exists>lab. id2label labels l = Some lab) evalLabels"
    using generateMatrix_evalLabels(3) [OF gm] by (simp add: list_all_iff)
  have all_range: "list_all (\<lambda>i. 0 \<le> i \<and> i < int ?n) evalLabels"
    using generateMatrix_evalLabels(1,2) [OF gm] by (simp add: list_all_iff)
  let ?rows = "filter (\<lambda>l. \<not> ignored labels l \<and> l \<noteq> label) evalLabels"
  have rows_range: "list_all (\<lambda>i. 0 \<le> i \<and> i < int ?n) ?rows"
    using all_range by (simp add: list_all_iff)
  have c: "cell confMatrix label label = Inr (confMatrix ! nat label ! nat label)"
    using cell_in_range [OF rows cols l0 l1 l0 l1] .
  have r: "rowSum confMatrix label = Inr (sum_list (confMatrix ! nat label))"
    using rowSum_in_range [of label confMatrix] l0 l1 rows by simp
  have n: "notIgnored labels (\<lambda>l. \<not> l = label) evalLabels = Inr ?rows"
    using notIgnored_known [OF all_known] by simp
  have s: "columnSum confMatrix ?rows label = Inr (\<Sum>i\<leftarrow>?rows. confMatrix ! nat i ! nat label)"
    using columnSum_in_range [OF rows cols l0 l1 rows_range] .
  have i: "int (\<Sum>i\<leftarrow>?rows. confMatrix ! nat i ! nat label) = (\<Sum>i\<leftarrow>?rows. int (confMatrix ! nat i ! nat label))"
    by (induction evalLabels) auto
  show ?thesis
    unfolding getIouScoreForLabel_def
    by (simp add: lab nig c r n s i Let_def)
qed

lemma generateMatrix_exampleLabels:
  "generateMatrix exampleLabels = Inr ([0, 1, 2], [[0, 0, 0], [0, 0, 0], [0, 0, 0]])"
  by (simp add: generateMatrix_def exampleLabels_def numeral_3_eq_3)

theorem getIouScoreForLabel_iou_witness:
  "generateMatrix exampleLabels = Inr ([0, 1, 2], [[0, 0, 0], [0, 0, 0], [0, 0, 0]])
   \<and> 2 \<in> set [0, 1, 2::int] \<and> \<not> ignored exampleLabels 2
   \<and> getIouScoreForLabel exampleLabels 2 exampleMatrix [0, 1, 2] = Inr (Fin (2 / 3), Fin 3)"
proof -
  have ni: "\<not> ignored exampleLabels 2"
    by (simp add: ignored_def id2label_def exampleLabels_def)
  have ig: "ignored exampleLabels 0" "\<not> ignored exampleLabels 1"
    by (simp_all add: ignored_def id2label_def exampleLabels_def)
  have "getIouScoreForLabel exampleLabels 2 exampleMatrix [0, 1, 2] = Inr (Fin (2 / 3), Fin 3)"
    using getIouScoreForLabel_iou [OF generateMatrix_exampleLabels, of exampleMatrix 2] ni ig
    by (simp add: exampleMatrix_def numeral_2_eq_2)
  then show ?thesis
    using ni generateMatrix_exampleLabels by simp
qed


section \<open>Averages of scores\<close>

lemma scoreLoop_sum:
  "scoreLoop sl (n, s) =
     (n + length (validEntries sl), foldl (\<lambda>s x. fl (s + x)) s (map fst (validEntries sl)))"
  by (induction sl "(n, s)" arbitrary: n s rule: scoreLoop.induct) simp_all

lemma freqScoreLoop_sum:
  "freqScoreLoop sl (a, b) =
     (foldl add a (map snd (validEntries sl)), foldl add b (map weighted (validEntries sl)))"
  by (induction sl "(a, b)" arbitrary: a b rule: freqScoreLoop.induct) (simp_all add: weighted_def)

lemma getScoreAverage_mean:
  "getScoreAverage sl =
     (if validEntries sl = [] then NaN
      else Fin (fl (floatSum (map fst (validEntries sl)) / fl (of_nat (length (validEntries sl))))))"
  by (simp add: getScoreAverage_def scoreLoop_sum floatSum_def)

lemma getFreqScoreAverage_mean:
  "getFreqScoreAverage sl =
     (if numberSum (map snd (validEntries sl)) = Fin 0 then NaN
      else divide_number (numberSum (map weighted (validEntries sl)))
             (numberSum (map snd (validEntries sl))))"
  by (simp add: getFreqScoreAverage_def freqScoreLoop_sum numberSum_def)

lemma foldl_exact:
  "exactSums s xs \<Longrightarrow> foldl (\<lambda>s x. fl (s + x)) s xs = s + sum_list xs"
  by (induction xs arbitrary: s) (simp_all add: representable_def add.assoc)

lemma foldl_add_exact:
  "list_all finiteWeight es \<Longrightarrow> exactSums s (map weightOf es) \<Longrightarrow>
   foldl add (Fin s) (map snd es) = Fin (s + sum_list (map weightOf es))"
proof (induction es arbitrary: s)
  case Nil
  then show ?case by simp
next
  case (Cons e es)
  obtain x w where e: "e = (x, w)" by (cases e)
  from Cons.prems(1) e obtain y where w: "w = Fin y"
    by (cases w) (auto simp: finiteWeight_def)
  from Cons.prems e w have "fl (s + y) = s + y" and "exactSums (s + y) (map weightOf es)"
    and "list_all finiteWeight es"
    by (simp_all add: representable_def)
  then show ?case
    using Cons.IH [of "s + y"] e w by (simp add: add.assoc)
qed

lemma foldl_weighted_exact:
  "list_all finiteWeight es \<Longrightarrow> list_all exactProduct es \<Longrightarrow>
   exactSums s (map weightedScore es) \<Longrightarrow>
   foldl add (Fin s) (map weighted es) = Fin (s + sum_list (map weightedScore es))"
proof (induction es arbitrary: s)
  case Nil
  then show ?case by simp
next
  case (Cons e es)
  obtain x w where e: "e = (x, w)" by (cases e)
  from Cons.prems(1) e obtain y where w: "w = Fin y"
    by (cases w) (auto simp: finiteWeight_def)
  have ws: "weightedScore e = x * y"
    by (simp add: e w weightedScore_def)
  from Cons.prems(1,2) have f: "list_all finiteWeight es" "list_all exactProduct es"
    by simp_all
  from Cons.prems(2) have p: "fl (x * y) = x * y"
    by (simp add: exactProduct_def representable_def ws)
  from Cons.prems(3) have a: "fl (s + x * y) = s + x * y"
    and r: "exactSums (s + x * y) (map weightedScore es)"
    by (simp_all add: representable_def ws)
  have "weighted e = Fin (x * y)"
    by (simp add: weighted_def e w p)
  then show ?case
    using Cons.IH [OF f r] a by (simp add: ws add.assoc)
qed

lemma sum_scores_equal:
  "list_all (scoreIs v) es \<Longrightarrow> sum_list (map fst es) = v * of_nat (length es)"
  by (induction es) (auto simp: scoreIs_def algebra_simps)

lemma sum_weighted_equal:
  "list_all (scoreIs v) es \<Longrightarrow> sum_list (map weightedScore es) = v * sum_list (map weightOf es)"
  by (induction es) (auto simp: scoreIs_def weightedScore_def algebra_simps)

lemma exactSums_first:
  "exactSums 0 (map fst es) \<Longrightarrow> list_all (scoreIs v) es \<Longrightarrow> es \<noteq> [] \<Longrightarrow> fl v = v"
  by (cases es) (auto simp: scoreIs_def representable_def)

text \<open>
  C6 (as amended). The plain average is the float sum of the scores other than NaN, added
  one by one from \<^verbatim>\<open>0.0\<close>, divided by their number, every operation rounding to binary64;
  it is NaN when there is no such score. The frequency-weighted average is the float sum of
  the float products of score and weight over the float sum of the weights, for the same
  entries, and NaN when that sum of weights is zero. If the scores other than NaN all equal
  \<open>v\<close>, the plain average is \<open>v\<close> provided there is at least one and no operation rounds
  (the partial sums \<open>v, 2v, ...\<close> and the count are binary64 values), and the weighted
  average is \<open>v\<close> provided the weights are not NaN, do not sum to zero, and no operation
  rounds (\<open>v\<close>, the products and the partial sums of products and of weights are binary64
  values).
\<close>

theorem score_averages:
  "getScoreAverage sl =
     (if validEntries sl = [] then NaN
      else Fin (fl (floatSum (map fst (validEntries sl)) / fl (of_nat (length (validEntries sl))))))
   \<and> getFreqScoreAverage sl =
       (if numberSum (map snd (validEntries sl)) = Fin 0 then NaN
        else divide_number (numberSum (map weighted (validEntries sl)))
               (numberSum (map snd (validEntries sl))))
   \<and> (list_all (scoreIs v) (validEntries sl) \<and> validEntries sl \<noteq> []
        \<and> exactSums 0 (map fst (validEntries sl))
        \<and> representable (of_nat (length (validEntries sl))) \<longrightarrow>
        getScoreAverage sl = Fin v)
   \<and> (list_all (scoreIs v) (validEntries sl) \<and> representable v
        \<and> list_all finiteWeight (validEntries sl)
        \<and> sum_list (map weightOf (validEntries sl)) \<noteq> 0
        \<and> exactSums 0 (map weightOf (validEntries sl))
        \<and> list_all exactProduct (validEntries sl)
        \<and> exactSums 0 (map weightedScore (validEntries sl)) \<longrightarrow>
        getFreqScoreAverage sl = Fin v)"
proof (intro conjI impI)
  show "getScoreAverage sl =
     (if validEntries sl = [] then NaN
      else Fin (fl (floatSum (map fst (validEntries sl)) / fl (of_nat (length (validEntries sl))))))"
    by (rule getScoreAverage_mean)
next
  show "getFreqScoreAverage sl =
       (if numberSum (map snd (validEntries sl)) = Fin 0 then NaN
        else divide_number (numberSum (map weighted (validEntries sl)))
               (numberSum (map snd (validEntries sl))))"
    by (rule getFreqScoreAverage_mean)
next
  assume a: "list_all (scoreIs v) (validEntries sl) \<and> validEntries sl \<noteq> []
        \<and> exactSums 0 (map fst (validEntries sl))
        \<and> representable (of_nat (length (validEntries sl)))"
  let ?es = "validEntries sl"
  from a have s: "floatSum (map fst ?es) = v * of_nat (length ?es)"
    using foldl_exact [of 0 "map fst ?es"] by (simp add: floatSum_def sum_scores_equal)
  from a have n: "fl (of_nat (length ?es)) = of_nat (length ?es)"
    and nz: "of_nat (length ?es) \<noteq> (0::rat)"
    by (simp_all add: representable_def)
  from a have v: "fl v = v" using exactSums_first [of ?es v] by simp
  from a show "getScoreAverage sl = Fin v"
    using nz by (simp add: getScoreAverage_mean s n v)
next
  assume a: "list_all (scoreIs v) (validEntries sl) \<and> representable v
        \<and> list_all finiteWeight (validEntries sl)
        \<and> sum_list (map weightOf (validEntries sl)) \<noteq> 0
        \<and> exactSums 0 (map weightOf (validEntries sl))
        \<and> list_all exactProduct (validEntries sl)
        \<and> exactSums 0 (map weightedScore (validEntries sl))"
  let ?es = "validEntries sl"
  from a have w: "numberSum (map snd ?es) = Fin (sum_list (map weightOf ?es))"
    using foldl_add_exact [of ?es 0] by (simp add: numberSum_def)
  from a have s: "numberSum (map weighted ?es) = Fin (v * sum_list (map weightOf ?es))"
    using foldl_weighted_exact [of ?es 0] by (simp add: numberSum_def sum_weighted_equal)
  from a have v: "fl v = v" and nz: "sum_list (map weightOf ?es) \<noteq> 0"
    by (simp_all add: representable_def)
  show "getFreqScoreAverage sl = Fin v"
    using nz by (simp add: getFreqScoreAverage_mean w s v)
qed

lemma fl_values:
  "fl (1 / 2) = 1 / 2" "fl 1 = 1" "fl 2 = 2" "fl 3 = 3" "fl 4 = 4" "fl (3 / 2) = 3 / 2"
  by code_simp+

theorem score_averages_witness:
  "list_all (scoreIs (1/2)) (validEntries exampleScores)
   \<and> validEntries exampleScores \<noteq> []
   \<and> exactSums 0 (map fst (validEntries exampleScores))
   \<and> representable (of_nat (length (validEntries exampleScores)))
   \<and> representable (1/2)
   \<and> list_all finiteWeight (validEntries exampleScores)
   \<and> sum_list (map weightOf (validEntries exampleScores)) \<noteq> 0
   \<and> exactSums 0 (map weightOf (validEntries exampleScores))
   \<and> list_all exactProduct (validEntries exampleScores)
   \<and> exactSums 0 (map weightedScore (validEntries exampleScores))
   \<and> getScoreAverage exampleScores = Fin (1/2)
   \<and> getFreqScoreAverage exampleScores = Fin (1/2)"
  using score_averages [of exampleScores "1/2"]
  by (simp add: exampleScores_def finiteWeight_def scoreIs_def weightedScore_def
      representable_def exactProduct_def floatSum_def numberSum_def weighted_def fl_values)

text \<open>The claim as stated fails. A label that never occurs in the ground truth but is
  predicted somewhere has score 0 and weight 0, and a collection of such entries has the
  weighted average NaN, not 0; a collection without any score has the plain average NaN.
  And the operations round: three scores of one tenth, with the weights 10, 20 and 3, have
  the plain average \<^verbatim>\<open>0.10000000000000002\<close> and the weighted average
  \<^verbatim>\<open>0.09999999999999999\<close>, the binary64 values next to one tenth on either side.\<close>

theorem score_averages_counterexample:
  "getIouScoreForLabel exampleLabels 1 [[5, 0, 3], [0, 0, 0], [0, 1, 2]] [0, 1, 2] = Inr (Fin 0, Fin 0)
   \<and> list_all (scoreIs 0) (validEntries [(''road'', Fin 0, Fin 0)])
   \<and> getFreqScoreAverage [(''road'', Fin 0, Fin 0)] = NaN
   \<and> list_all (scoreIs 0) (validEntries [(''unlabeled'', NaN, NaN)])
   \<and> getScoreAverage [(''unlabeled'', NaN, NaN)] = NaN
   \<and> representable tenth
   \<and> list_all (scoreIs tenth) (validEntries tenths)
   \<and> getScoreAverage tenths = Fin (tenth + 1 / 2 ^ 56)
   \<and> getFreqScoreAverage tenths = Fin (tenth - 1 / 2 ^ 56)"
proof -
  have guard: "getIouScoreForLabel exampleLabels 1 [[5, 0, 3], [0, 0, 0], [0, 1, 2]] [0, 1, 2] = Inr (Fin 0, Fin 0)
   \<and> list_all (scoreIs 0) (validEntries [(''road'', Fin 0, Fin 0)])
   \<and> getFreqScoreAverage [(''road'', Fin 0, Fin 0)] = NaN
   \<and> list_all (scoreIs 0) (validEntries [(''unlabeled'', NaN, NaN)])
   \<and> getScoreAverage [(''unlabeled'', NaN, NaN)] = NaN"
    by (simp add: getIouScoreForLabel_def id2label_def exampleLabels_def cell_def npIndex_def
        ncols_def rowSum_def scoreIs_def getFreqScoreAverage_def getScoreAverage_def fl_def)
  have rounding: "representable tenth"
    "getScoreAverage tenths = Fin (tenth + 1 / 2 ^ 56)"
    "getFreqScoreAverage tenths = Fin (tenth - 1 / 2 ^ 56)"
    by code_simp+
  have "list_all (scoreIs tenth) (validEntries tenths)"
    by (simp add: tenths_def scoreIs_def)
  with guard rounding show ?thesis by simp
qed

section \<open>Accumulating the confusion matrix\<close>

lemma matrixSum_update:
  assumes "g < length m" "p < length (m ! g)"
  shows "matrixSum (m[g := (m ! g)[p := m ! g ! p + 1]]) = matrixSum m + 1"
proof -
  have row: "sum_list ((m ! g)[p := m ! g ! p + 1]) = sum_list (m ! g) + 1"
    using assms(2) by (simp add: sum_list_update)
  have "map sum_list m ! g \<in> set (map sum_list m)"
    using assms(1) by (intro nth_mem) simp
  then have "map sum_list m ! g \<le> sum_list (map sum_list m)"
    by (intro member_le_sum_list) auto
  then have le: "sum_list (m ! g) \<le> sum_list (map sum_list m)"
    using assms(1) by (simp only: nth_map)
  have "sum_list (map sum_list (m[g := (m ! g)[p := m ! g ! p + 1]]))
        = sum_list ((map sum_list m)[g := sum_list (m ! g) + 1])"
    by (simp only: map_update row)
  also have "\<dots> = sum_list (map sum_list m) + (sum_list (m ! g) + 1) - sum_list (m ! g)"
    using assms(1) by (simp add: sum_list_update)
  also have "\<dots> = sum_list (map sum_list m) + 1"
    using le by simp
  finally show ?thesis by (simp add: matrixSum_def)
qed

lemma pixelLoop_sum:
  "pixelLoop evalLabels ps m = (m', None) \<Longrightarrow> matrixSum m' = matrixSum m + length ps"
proof (induction evalLabels ps m rule: pixelLoop.induct)
  case (1 evalLabels confMatrix)
  then show ?case by simp
next
  case (2 evalLabels g p rest confMatrix)
  have c: "int g \<in> set evalLabels \<and> g < length confMatrix \<and> p < length (confMatrix ! g)"
  proof (rule ccontr)
    assume "\<not> ?thesis"
    then have "snd (pixelLoop evalLabels ((g, p) # rest) confMatrix) \<noteq> None"
      by (simp del: pixelLoop.simps add: pixelLoop.simps(2) [of evalLabels g p rest confMatrix])
    then show False using "2.prems" by (simp del: pixelLoop.simps)
  qed
  let ?m = "confMatrix[g := (confMatrix ! g)[p := confMatrix ! g ! p + 1]]"
  have step: "pixelLoop evalLabels ((g, p) # rest) confMatrix = pixelLoop evalLabels rest ?m"
    using c by (simp del: pixelLoop.simps add: pixelLoop.simps(2) [of evalLabels g p rest confMatrix])
  then have "pixelLoop evalLabels rest ?m = (m', None)"
    using "2.prems" by (simp del: pixelLoop.simps)
  then have "matrixSum m' = matrixSum ?m + length rest"
    using "2.IH" c by (simp del: pixelLoop.simps)
  moreover have "matrixSum ?m = matrixSum confMatrix + 1"
    using c by (intro matrixSum_update) auto
  ultimately show ?case by simp
qed




section \<open>Conservation of the pixel count\<close>

lemma evaluatePair_Inr:
  assumes "evaluatePair labels a p st = Inr (n, st')"
  shows "n = pairPixels p"
    and "imgWidth (pair_predictionImg p) = imgWidth (pair_groundTruthImg p)"
    and "imgHeight (pair_predictionImg p) = imgHeight (pair_groundTruthImg p)"
    and "pixelLoop (args_evalLabels a)
           (zip (getdata (pair_groundTruthImg p)) (getdata (pair_predictionImg p)))
           (st_confMatrix st) = (st_confMatrix st', None)"
proof -
  from assms have w: "imgWidth (pair_predictionImg p) = imgWidth (pair_groundTruthImg p)"
    and h: "imgHeight (pair_predictionImg p) = imgHeight (pair_groundTruthImg p)"
    by (auto simp: evaluatePair_def split: if_splits)
  obtain m r where pl: "pixelLoop (args_evalLabels a)
           (zip (getdata (pair_groundTruthImg p)) (getdata (pair_predictionImg p)))
           (st_confMatrix st) = (m, r)"
    by (cases "pixelLoop (args_evalLabels a)
           (zip (getdata (pair_groundTruthImg p)) (getdata (pair_predictionImg p)))
           (st_confMatrix st)")
  from assms w h pl have r: "r = None"
    by (cases r) (simp_all add: evaluatePair_def)
  from assms w h pl r have "n = pairPixels p \<and> st_confMatrix st' = m"
    by (auto simp: evaluatePair_def pairPixels_def Let_def split: if_splits sum.splits)
  with w h pl r show "n = pairPixels p"
    and "imgWidth (pair_predictionImg p) = imgWidth (pair_groundTruthImg p)"
    and "imgHeight (pair_predictionImg p) = imgHeight (pair_groundTruthImg p)"
    and "pixelLoop (args_evalLabels a)
           (zip (getdata (pair_groundTruthImg p)) (getdata (pair_predictionImg p)))
           (st_confMatrix st) = (st_confMatrix st', None)"
    by simp_all
qed

lemma evaluateLoop_invariant:
  "evaluateLoop labels a ps (st, nb) = Inr (st', nb') \<Longrightarrow>
   matrixSum (st_confMatrix st) = nb \<Longrightarrow>
   matrixSum (st_confMatrix st') = nb' \<and> nb' = nb + sum_list (map pairPixels ps)"
proof (induction ps arbitrary: st nb)
  case Nil
  then show ?case by simp
next
  case (Cons p ps)
  from Cons.prems(1) obtain n st1 where ep: "evaluatePair labels a p st = Inr (n, st1)"
    by (cases "evaluatePair labels a p st") auto
  from Cons.prems(1) ep have chk: "matrixSum (st_confMatrix st1) = nb + n"
    and rest: "evaluateLoop labels a ps (st1, nb + n) = Inr (st', nb')"
    by (auto split: if_splits)
  from Cons.IH [OF rest chk] evaluatePair_Inr(1) [OF ep]
  show ?case by simp
qed

lemma evaluateLoop_append:
  "evaluateLoop labels a (xs @ ys) s =
     (case evaluateLoop labels a xs s of
        Inl e \<Rightarrow> Inl e
      | Inr s' \<Rightarrow> evaluateLoop labels a ys s')"
proof (induction xs arbitrary: s)
  case Nil
  then show ?case by simp
next
  case (Cons p xs)
  obtain st nb where s: "s = (st, nb)" by (cases s)
  show ?case
    using Cons.IH by (simp add: s split: sum.splits prod.splits)
qed

lemma evaluatePair_count:
  assumes ep: "evaluatePair labels a p st = Inr (n, st')"
    and wf: "wellFormed (pair_predictionImg p)" "wellFormed (pair_groundTruthImg p)"
  shows "matrixSum (st_confMatrix st') = matrixSum (st_confMatrix st) + n"
proof -
  have "length (zip (getdata (pair_groundTruthImg p)) (getdata (pair_predictionImg p))) = n"
    using evaluatePair_Inr(1-3) [OF ep] wf by (simp add: wellFormed_def pairPixels_def)
  then show ?thesis
    using pixelLoop_sum [OF evaluatePair_Inr(4) [OF ep]] by simp
qed

lemma pixelLoop_error:
  "pixelLoop evalLabels ps m = (m', Some e) \<Longrightarrow> e \<noteq> PixelCountMismatch x y"
  by (induction evalLabels ps m rule: pixelLoop.induct) (auto split: if_splits)

lemma notIgnored_error:
  "notIgnored labels extra ls = Inl e \<Longrightarrow> e \<noteq> PixelCountMismatch x y"
  by (induction ls) (auto split: option.splits sum.splits)

lemma instanceStep_error:
  "instanceStep labels avg masks predictionImg instanceImg instId stats = Inl e \<Longrightarrow>
   e \<noteq> PixelCountMismatch x y"
  by (auto simp: instanceStep_def Let_def split: option.splits if_splits)

lemma instanceLoop_error:
  "instanceLoop labels avg masks predictionImg instanceImg ids stats = Inl e \<Longrightarrow>
   e \<noteq> PixelCountMismatch x y"
proof (induction ids arbitrary: stats)
  case Nil
  then show ?case by simp
next
  case (Cons i ids)
  then show ?case
    by (cases "instanceStep labels avg masks predictionImg instanceImg i stats")
      (auto dest: instanceStep_error)
qed

lemma evaluatePair_error:
  assumes "evaluatePair labels a p st = Inl e"
  shows "e \<noteq> PixelCountMismatch x y"
proof -
  obtain m r where pl: "pixelLoop (args_evalLabels a)
           (zip (getdata (pair_groundTruthImg p)) (getdata (pair_predictionImg p)))
           (st_confMatrix st) = (m, r)"
    by (cases "pixelLoop (args_evalLabels a)
           (zip (getdata (pair_groundTruthImg p)) (getdata (pair_predictionImg p)))
           (st_confMatrix st)")
  show ?thesis
    using assms pl
    by (auto simp: evaluatePair_def evaluateInstances_def pixelAccuracy_def Let_def
        split: if_splits option.splits sum.splits
        dest: pixelLoop_error instanceLoop_error notIgnored_error)
qed

lemma evaluateLoop_no_mismatch:
  "list_all (\<lambda>p. wellFormed (pair_predictionImg p) \<and> wellFormed (pair_groundTruthImg p)) ps \<Longrightarrow>
   matrixSum (st_confMatrix st) = nb \<Longrightarrow>
   evaluateLoop labels a ps (st, nb) \<noteq> Inl (PixelCountMismatch x y)"
proof (induction ps arbitrary: st nb)
  case Nil
  then show ?case by simp
next
  case (Cons p ps)
  show ?case
  proof (cases "evaluatePair labels a p st")
    case (Inl e)
    then show ?thesis using evaluatePair_error [OF Inl, of x y] by simp
  next
    case (Inr r)
    obtain n st1 where r: "r = (n, st1)" by (cases r)
    have chk: "matrixSum (st_confMatrix st1) = nb + n"
      using evaluatePair_count [of labels a p st n st1] Inr r Cons.prems by simp
    have "evaluateLoop labels a ps (st1, nb + n) \<noteq> Inl (PixelCountMismatch x y)"
      using Cons.IH [OF _ chk] Cons.prems(1) by simp
    then show ?thesis using Inr r chk by simp
  qed
qed


lemma pairPixels_map2:
  "length preds = length gts \<Longrightarrow>
   sum_list (map pairPixels (map2 makePair preds gts)) = pixelCount preds"
  by (induction preds gts rule: list_induct2)
    (simp_all add: pixelCount_def pairPixels_def makePair_def)

lemma generateMatrix_sum:
  "generateMatrix labels = Inr (ev, m) \<Longrightarrow> matrixSum m = 0"
  by (auto simp: generateMatrix_def matrixSum_def Let_def split: if_splits)

lemma evaluateImgLists_Inr:
  assumes "evaluateImgLists labels a preds gts = Inr (st, nb)"
  shows "length preds = length gts"
    and "\<exists>ev m. generateMatrix labels = Inr (ev, m) \<and>
           evaluateLoop labels (a\<lparr>args_evalLabels := ev\<rparr>) (map2 makePair preds gts)
             (\<lparr>st_confMatrix = m, st_instStats = generateInstanceStats labels,
               st_perImageStats = Map.empty\<rparr>, 0) = Inr (st, nb)"
  using assms
  by (auto simp: evaluateImgLists_def split: if_splits sum.splits prod.splits)

lemma evaluateImgLists_prefix:
  assumes run: "evaluateImgLists labels a preds gts = Inr (st, nb)"
    and k: "k \<le> length preds"
  shows "\<exists>st'. evaluateImgLists labels a (take k preds) (take k gts)
                 = Inr (st', pixelCount (take k preds))
               \<and> matrixSum (st_confMatrix st') = pixelCount (take k preds)"
proof -
  from evaluateImgLists_Inr [OF run] obtain ev m
    where len: "length preds = length gts"
      and gm: "generateMatrix labels = Inr (ev, m)"
      and loop: "evaluateLoop labels (a\<lparr>args_evalLabels := ev\<rparr>) (map2 makePair preds gts)
             (\<lparr>st_confMatrix = m, st_instStats = generateInstanceStats labels,
               st_perImageStats = Map.empty\<rparr>, 0) = Inr (st, nb)"
    by blast
  let ?a = "a\<lparr>args_evalLabels := ev\<rparr>"
  let ?s0 = "(\<lparr>st_confMatrix = m, st_instStats = generateInstanceStats labels,
               st_perImageStats = Map.empty\<rparr>, 0::nat)"
  let ?ps = "map2 makePair preds gts"
  have "evaluateLoop labels ?a ?ps ?s0 =
          (case evaluateLoop labels ?a (take k ?ps) ?s0 of
             Inl e \<Rightarrow> Inl e
           | Inr s' \<Rightarrow> evaluateLoop labels ?a (drop k ?ps) s')"
    using evaluateLoop_append [of labels ?a "take k ?ps" "drop k ?ps" ?s0]
    by (simp only: append_take_drop_id)
  then obtain s1 where s1: "evaluateLoop labels ?a (take k ?ps) ?s0 = Inr s1"
    using loop by (cases "evaluateLoop labels ?a (take k ?ps) ?s0") simp_all
  obtain st1 nb1 where p: "s1 = (st1, nb1)" by (cases s1)
  have tk: "take k ?ps = map2 makePair (take k preds) (take k gts)"
    by (simp add: take_map take_zip)
  have len': "length (take k preds) = length (take k gts)"
    using len by simp
  have inv: "matrixSum (st_confMatrix st1) = nb1
             \<and> nb1 = 0 + sum_list (map pairPixels (take k ?ps))"
    using evaluateLoop_invariant [of labels ?a "take k ?ps" _ 0 st1 nb1]
      s1 p generateMatrix_sum [OF gm] by simp
  then have nb1: "nb1 = pixelCount (take k preds)"
    using pairPixels_map2 [OF len'] tk by simp
  have "evaluateImgLists labels a (take k preds) (take k gts) = Inr (st1, nb1)"
    using len' gm s1 p tk inv by (simp add: evaluateImgLists_def)
  then show ?thesis using inv nb1 by auto
qed

text \<open>
  C2. Whenever the evaluation of the lists returns, the sum of the confusion matrix equals
  the number of pixels counted, which is the sum of width times height over the pairs; the
  same holds after each pair, that is for the run over every prefix of the lists, which
  returns too. The sanity check is what ends a run whose two numbers disagree; for well
  formed images it never fires.
\<close>

theorem evaluateImgLists_conservation:
  "(evaluateImgLists labels a preds gts = Inr (st, nb) \<longrightarrow>
      matrixSum (st_confMatrix st) = nb \<and> nb = pixelCount preds
      \<and> (\<forall>k. k \<le> length preds \<longrightarrow>
            (\<exists>st'. evaluateImgLists labels a (take k preds) (take k gts)
                      = Inr (st', pixelCount (take k preds))
                    \<and> matrixSum (st_confMatrix st') = pixelCount (take k preds))))
   \<and> (list_all wellFormed (map snd preds) \<and> list_all wellFormed (map fst gts) \<longrightarrow>
        evaluateImgLists labels a preds gts \<noteq> Inl (PixelCountMismatch x y))"
proof (intro conjI impI allI)
  assume run: "evaluateImgLists labels a preds gts = Inr (st, nb)"
  from evaluateImgLists_prefix [OF run, of "length preds"] evaluateImgLists_Inr(1) [OF run] run
  show "matrixSum (st_confMatrix st) = nb" and "nb = pixelCount preds"
    by auto
next
  fix k
  assume "evaluateImgLists labels a preds gts = Inr (st, nb)" and "k \<le> length preds"
  then show "\<exists>st'. evaluateImgLists labels a (take k preds) (take k gts)
                      = Inr (st', pixelCount (take k preds))
                    \<and> matrixSum (st_confMatrix st') = pixelCount (take k preds)"
    by (rule evaluateImgLists_prefix)
next
  assume wf: "list_all wellFormed (map snd preds) \<and> list_all wellFormed (map fst gts)"
  show "evaluateImgLists labels a preds gts \<noteq> Inl (PixelCountMismatch x y)"
  proof (cases "length preds = length gts")
    case False
    then show ?thesis by (simp add: evaluateImgLists_def)
  next
    case True
    have wfp: "list_all (\<lambda>p. wellFormed (pair_predictionImg p) \<and> wellFormed (pair_groundTruthImg p))
                 (map2 makePair preds gts)"
      using True wf
      by (induction preds gts rule: list_induct2) (simp_all add: makePair_def)
    show ?thesis
    proof (cases "generateMatrix labels")
      case (Inl e)
      then have "e = ValueError"
        by (auto simp: generateMatrix_def Let_def split: if_splits)
      then show ?thesis using True Inl by (simp add: evaluateImgLists_def)
    next
      case (Inr r)
      obtain ev m where r: "r = (ev, m)" by (cases r)
      let ?a = "a\<lparr>args_evalLabels := ev\<rparr>"
      let ?s0 = "(\<lparr>st_confMatrix = m, st_instStats = generateInstanceStats labels,
                   st_perImageStats = Map.empty\<rparr>, 0::nat)"
      have m0: "matrixSum m = 0" using generateMatrix_sum Inr r by blast
      have nm: "evaluateLoop labels ?a (map2 makePair preds gts) ?s0
                  \<noteq> Inl (PixelCountMismatch x y)"
        using evaluateLoop_no_mismatch [OF wfp, of _ 0 labels ?a x y] m0 by simp
      show ?thesis
      proof (cases "evaluateLoop labels ?a (map2 makePair preds gts) ?s0")
        case (Inl e)
        then show ?thesis using True Inr r nm by (simp add: evaluateImgLists_def)
      next
        case (Inr s1)
        obtain st1 nb1 where p: "s1 = (st1, nb1)" by (cases s1)
        have "matrixSum (st_confMatrix st1) = nb1"
          using evaluateLoop_invariant [of labels ?a "map2 makePair preds gts" _ 0 st1 nb1]
            Inr p m0 by simp
        then show ?thesis
          using True \<open>generateMatrix labels = Inr r\<close> r Inr p by (simp add: evaluateImgLists_def)
      qed
    qed
  qed
qed

theorem evaluateImgLists_conservation_witness:
  "list_all wellFormed (map snd examplePredictions)
   \<and> list_all wellFormed (map fst exampleGroundTruths)
   \<and> (\<exists>st. evaluateImgLists exampleLabels exampleArgs examplePredictions exampleGroundTruths
               = Inr (st, 2)
            \<and> st_confMatrix st = [[0, 0, 0], [0, 1, 1], [0, 0, 0]]
            \<and> matrixSum (st_confMatrix st) = 2)
   \<and> pixelCount examplePredictions = 2
   \<and> evaluateImgLists exampleLabels exampleArgs examplePredictions exampleGroundTruths
       \<noteq> Inl (PixelCountMismatch 0 0)"
proof -
  have run: "evaluateImgLists exampleLabels exampleArgs examplePredictions exampleGroundTruths
          = Inr (\<lparr>st_confMatrix = [[0, 0, 0], [0, 1, 1], [0, 0, 0]],
                  st_instStats = generateInstanceStats exampleLabels,
                  st_perImageStats = Map.empty\<rparr>, 2)"
    by (simp add: evaluateImgLists_def generateMatrix_exampleLabels exampleArgs_def
        examplePredictions_def exampleGroundTruths_def makePair_def evaluatePair_def
        evaluateInstances_def instList_def matrixSum_def)
  have wf: "list_all wellFormed (map snd examplePredictions)
            \<and> list_all wellFormed (map fst exampleGroundTruths)"
    by (simp add: examplePredictions_def exampleGroundTruths_def wellFormed_def)
  show ?thesis
    using evaluateImgLists_conservation
      [of exampleLabels exampleArgs examplePredictions exampleGroundTruths
          "\<lparr>st_confMatrix = [[0, 0, 0], [0, 1, 1], [0, 0, 0]],
            st_instStats = generateInstanceStats exampleLabels,
            st_perImageStats = Map.empty\<rparr>" 2 0 0]
      run wf
    by simp
qed

section \<open>An unknown ground truth label\<close>




section \<open>Pixel accuracy of an image\<close>

text \<open>
  C5. With the pixel accuracy switched on, the pair of the example gets its one entry
  under the name of the prediction file. Three of its four pixels have a ground truth
  label that is evaluated and two of those are predicted right, but the entry holds 1 and
  0: \<^verbatim>\<open>nbNotIgnoredPixels\<close> counts the pixels whose ground truth is not among the evaluated
  labels, and \<^verbatim>\<open>nbCorrectPixels\<close> counts those of them that are predicted wrong.
\<close>

theorem evaluatePair_perImageStats:
  "evaluatePair exampleLabels accuracyArgs accuracyPair
       (emptyState exampleLabels [[0, 0, 0], [0, 0, 0], [0, 0, 0]])
     = Inr (4, \<lparr>st_confMatrix = [[1, 0, 0], [0, 2, 1], [0, 0, 0]],
                st_instStats = generateInstanceStats exampleLabels,
                st_perImageStats =
                  [''pred.png'' \<mapsto> \<lparr>nbNotIgnoredPixels = 1, nbCorrectPixels = 0\<rparr>]\<rparr>)
   \<and> length (filter (\<lambda>g. \<not> ignored exampleLabels (int g))
         (getdata (pair_groundTruthImg accuracyPair))) = 3
   \<and> length (filter (\<lambda>(p, g). \<not> ignored exampleLabels (int g) \<and> p = g)
         (zip (getdata (pair_predictionImg accuracyPair))
              (getdata (pair_groundTruthImg accuracyPair)))) = 2"
proof -
  have ig: "ignored exampleLabels 0" "\<not> ignored exampleLabels 1" "\<not> ignored exampleLabels 2"
    by (simp_all add: ignored_def id2label_def exampleLabels_def)
  have "evaluatePair exampleLabels accuracyArgs accuracyPair
       (emptyState exampleLabels [[0, 0, 0], [0, 0, 0], [0, 0, 0]])
     = Inr (4, \<lparr>st_confMatrix = [[1, 0, 0], [0, 2, 1], [0, 0, 0]],
                st_instStats = generateInstanceStats exampleLabels,
                st_perImageStats =
                  [''pred.png'' \<mapsto> \<lparr>nbNotIgnoredPixels = 1, nbCorrectPixels = 0\<rparr>]\<rparr>)"
    by (simp add: evaluatePair_def accuracyArgs_def accuracyPair_def exampleArgs_def
        emptyState_def evaluateInstances_def instList_def pixelAccuracy_def
        id2label_def exampleLabels_def)
  then show ?thesis
    using ig by (simp add: accuracyPair_def)
qed

section \<open>Accumulating the instance statistics\<close>

lemma instList_set:
  "set (instList xs) = {i \<in> set xs. 1000 < i}"
  "distinct (instList xs)" "sorted (instList xs)"
  by (auto simp: instList_def)

lemma maskCount_size:
  "maskCount instId (\<lambda>p. True) xs xs = length (filter (\<lambda>i. i = instId) xs)"
  unfolding maskCount_def by (induction xs) auto

lemma maskCount_pos: "instId \<in> set xs \<Longrightarrow> maskCount instId (\<lambda>p. True) xs xs \<noteq> 0"
  by (simp add: maskCount_size filter_empty_conv)

lemma id2label_id: "id2label labels k = Some l \<Longrightarrow> id' l = k \<and> l \<in> set labels"
  unfolding id2label_def by (auto dest: map_of_SomeD)

lemma instanceStep_classes:
  assumes shape: "imgHeight instanceImg = imgHeight predictionImg"
      "imgWidth instanceImg = imgWidth predictionImg"
    and mem: "instId \<in> set (getdata instanceImg)"
    and tr: "tracked labels avg (classes st) instId"
  shows "\<exists>st'. instanceStep labels avg masks predictionImg instanceImg instId st = Inr st'
           \<and> classes st' = classUpdate labels avg predictionImg instanceImg instId (classes st)"
proof -
  from tr obtain l where l: "id2label labels (int (instId div 1000)) = Some l"
    by (auto simp: tracked_def split: option.splits)
  show ?thesis
  proof (cases "ignoreInEval l")
    case True
    then show ?thesis using l by (simp add: instanceStep_def classUpdate_def)
  next
    case False
    with tr l obtain e a where e: "classes st (name l) = Some e" and a: "avg (name l) = Some a"
      by (auto simp: tracked_def)
    have idl: "id' l = int (instId div 1000)" using id2label_id [OF l] by simp
    have pos: "maskCount instId (\<lambda>p. True) (getdata instanceImg) (getdata instanceImg) \<noteq> 0"
      using mem by (rule maskCount_pos)
    show ?thesis
      using l False e a shape pos idl
      by (auto simp: instanceStep_def classUpdate_def Let_def addStats_def maskCount_size
          maskCount_def split: option.splits)
  qed
qed

lemma classUpdate_dom:
  "(\<exists>e. classUpdate labels avg predictionImg instanceImg instId cls n = Some e)
     = (\<exists>e. cls n = Some e)"
  by (auto simp: classUpdate_def Let_def split: option.splits if_splits)

lemma tracked_classUpdate:
  "tracked labels avg (classUpdate labels avg predictionImg instanceImg i cls)
     = tracked labels avg cls"
  unfolding tracked_def by (rule ext) (simp add: classUpdate_dom split: option.splits)

lemma instanceLoop_classes:
  assumes shape: "imgHeight instanceImg = imgHeight predictionImg"
      "imgWidth instanceImg = imgWidth predictionImg"
  shows "set ids \<subseteq> set (getdata instanceImg) \<Longrightarrow>
         list_all (tracked labels avg (classes st)) ids \<Longrightarrow>
         \<exists>st'. instanceLoop labels avg masks predictionImg instanceImg ids st = Inr st'
           \<and> classes st' = fold (classUpdate labels avg predictionImg instanceImg) ids (classes st)"
proof (induction ids arbitrary: st)
  case Nil
  then show ?case by simp
next
  case (Cons i ids)
  from Cons.prems have mem: "i \<in> set (getdata instanceImg)"
    and tr: "tracked labels avg (classes st) i" by simp_all
  from instanceStep_classes [OF shape mem tr, of masks]
  obtain st1 where s1: "instanceStep labels avg masks predictionImg instanceImg i st = Inr st1"
    and c1: "classes st1 = classUpdate labels avg predictionImg instanceImg i (classes st)"
    by blast
  have "list_all (tracked labels avg (classes st1)) ids"
    using Cons.prems(2) by (simp add: c1 tracked_classUpdate)
  moreover have "set ids \<subseteq> set (getdata instanceImg)" using Cons.prems(1) by simp
  ultimately obtain st' where
    "instanceLoop labels avg masks predictionImg instanceImg ids st1 = Inr st'"
    "classes st' = fold (classUpdate labels avg predictionImg instanceImg) ids (classes st1)"
    using Cons.IH [of st1] by blast
  then show ?case using s1 c1 by simp
qed

text \<open>
  C3 (as amended). The accumulation walks once over each instance id of the instance image
  that is greater than 1000, in ascending order; the ids up to 1000 are not looked at.
  When the prediction has the shape of the instance image and every such id is tracked
  (its label is in the table and, unless ignored, has an entry in the table of classes
  and an average size), the accumulation returns, and the table of classes it leaves is
  the one obtained by applying to each id in turn the update of the specification: the
  entry of the label grows by \<open>tp\<close>, \<open>fn = instSize - tp\<close>, \<open>tp * weight\<close> and \<open>fn * weight\<close>
  with \<open>weight = avgClassSize / instSize\<close>, in float arithmetic, and an ignored label
  changes nothing.
\<close>

theorem evaluateInstances_classes:
  assumes "imgHeight instanceImg = imgHeight predictionImg"
    and "imgWidth instanceImg = imgWidth predictionImg"
    and "list_all (tracked labels avg (classes st)) (instList (getdata instanceImg))"
  shows "set (instList (getdata instanceImg)) = {i \<in> set (getdata instanceImg). 1000 < i}
       \<and> distinct (instList (getdata instanceImg))
       \<and> sorted (instList (getdata instanceImg))
       \<and> (\<exists>st'. evaluateInstances labels avg predictionImg instanceImg st = Inr st'
              \<and> classes st' =
                  fold (classUpdate labels avg predictionImg instanceImg)
                    (instList (getdata instanceImg)) (classes st))"
proof -
  have sub: "set (instList (getdata instanceImg)) \<subseteq> set (getdata instanceImg)"
    by (auto simp: instList_set(1))
  show ?thesis
    using instanceLoop_classes [OF assms(1,2) sub assms(3)]
    by (simp add: instList_set evaluateInstances_def)
qed

lemma fl_small:
  "fl 1 = 1" "fl 2 = 2" "fl 4 = 4" "fl 8 = 8" "fl 12 = 12" "fl 3 = 3"
  by code_simp+

theorem evaluateInstances_classes_witness:
  "imgHeight carInstances = imgHeight carPrediction
   \<and> imgWidth carInstances = imgWidth carPrediction
   \<and> list_all (tracked exampleLabels exampleAvg (classes (generateInstanceStats exampleLabels)))
        (instList (getdata carInstances))
   \<and> instList (getdata carInstances) = [2001, 2002]
   \<and> (\<exists>st'. evaluateInstances exampleLabels exampleAvg carPrediction carInstances
               (generateInstanceStats exampleLabels) = Inr st'
         \<and> classes st' ''car'' = Some \<lparr>tp = 2, tpWeighted = 12, fn = 1, fnWeighted = 4\<rparr>)"
proof -
  have il: "instList (getdata carInstances) = [2001, 2002]"
    by (simp add: instList_def carInstances_def)
  have lab: "id2label exampleLabels 2 =
      Some \<lparr>name = ''car'', id' = 2, category = ''vehicle'', hasInstances = True, ignoreInEval = False\<rparr>"
    by (simp add: id2label_def exampleLabels_def)
  have cls: "classes (generateInstanceStats exampleLabels) ''car''
      = Some \<lparr>tp = 0, tpWeighted = 0, fn = 0, fnWeighted = 0\<rparr>"
    by (simp add: generateInstanceStats_def exampleLabels_def addClass_def)
  have tr: "list_all (tracked exampleLabels exampleAvg (classes (generateInstanceStats exampleLabels)))
        (instList (getdata carInstances))"
    by (simp add: il tracked_def lab cls exampleAvg_def)
  have sh: "imgHeight carInstances = imgHeight carPrediction"
    "imgWidth carInstances = imgWidth carPrediction"
    by (simp_all add: carInstances_def carPrediction_def)
  have upd: "fold (classUpdate exampleLabels exampleAvg carPrediction carInstances) [2001, 2002]
          (classes (generateInstanceStats exampleLabels)) ''car''
        = Some \<lparr>tp = 2, tpWeighted = 12, fn = 1, fnWeighted = 4\<rparr>"
    by (simp add: classUpdate_def lab cls exampleAvg_def carInstances_def carPrediction_def
        fl_small fl_def [of 0])
  show ?thesis
    using evaluateInstances_classes [OF sh tr] sh tr il upd by auto
qed

text \<open>The claim as stated fails: road is evaluated but has no instances, so it has no
  entry in the table of classes and no average size, and an instance id of road ends the
  accumulation with a failed lookup, of the average size or, where there is one, of the
  entry; and a prediction of another shape than the instance image ends it with an index
  error.\<close>

theorem evaluateInstances_classes_counterexample:
  "1001 \<in> set (getdata roadInstances)
   \<and> \<not> ignored exampleLabels (int (1001 div 1000))
   \<and> evaluateInstances exampleLabels avgClassSize_default carPrediction roadInstances
         (generateInstanceStats exampleLabels) = Inl (KeyError_avgClassSize ''road'')
   \<and> evaluateInstances exampleLabels exampleAvg carPrediction roadInstances
         (generateInstanceStats exampleLabels) = Inl (KeyError_classes ''road'')
   \<and> evaluateInstances exampleLabels exampleAvg
         \<lparr>imgWidth = 2, imgHeight = 2, getdata = [2, 1, 1, 2]\<rparr> carInstances
         (generateInstanceStats exampleLabels) = Inl IndexError"
proof -
  have lab: "id2label exampleLabels 1 =
      Some \<lparr>name = ''road'', id' = 1, category = ''flat'', hasInstances = False, ignoreInEval = False\<rparr>"
    "id2label exampleLabels 2 =
      Some \<lparr>name = ''car'', id' = 2, category = ''vehicle'', hasInstances = True, ignoreInEval = False\<rparr>"
    by (simp_all add: id2label_def exampleLabels_def)
  have cls: "classes (generateInstanceStats exampleLabels) ''road'' = None"
    by (simp add: generateInstanceStats_def exampleLabels_def addClass_def)
  have il: "instList [1001, 1001, 0, 2002] = [1001, 2002]"
    "instList [2001, 2001, 0, 2002] = [2001, 2002]"
    by (simp_all add: instList_def)
  show ?thesis
    by (simp add: evaluateInstances_def il instanceStep_def lab cls ignored_def
        avgClassSize_default_def exampleAvg_def roadInstances_def carInstances_def
        carPrediction_def maskCount_def)
qed

section \<open>An instance of a label without instances\<close>

lemma fold_addClass:
  "fold addClass ls m n =
     (if \<exists>l \<in> set ls. name l = n \<and> hasInstances l \<and> \<not> ignoreInEval l
      then Some \<lparr>tp = 0, tpWeighted = 0, fn = 0, fnWeighted = 0\<rparr>
      else m n)"
  by (induction ls arbitrary: m) (auto simp: addClass_def)

lemma generateInstanceStats_classes_None:
  assumes "distinct (map name labels)" "l \<in> set labels" "\<not> hasInstances l"
  shows "classes (generateInstanceStats labels) (name l) = None"
proof -
  have "\<not> (\<exists>l' \<in> set labels. name l' = name l \<and> hasInstances l' \<and> \<not> ignoreInEval l')"
    using assms by (auto simp: distinct_map inj_on_def)
  then show ?thesis
    by (simp add: generateInstanceStats_def fold_addClass)
qed

lemma instanceStep_Inl:
  assumes "imgHeight instanceImg = imgHeight predictionImg"
      "imgWidth instanceImg = imgWidth predictionImg"
    and "instId \<in> set (getdata instanceImg)"
    and "instanceStep labels avg masks predictionImg instanceImg instId st = Inl e"
  shows "isKeyError e"
  using assms maskCount_pos [OF assms(3)]
  by (auto simp: instanceStep_def Let_def split: option.splits if_splits)

lemma instanceStep_None:
  assumes "instanceStep labels avg masks predictionImg instanceImg instId st = Inr st'"
    and "classes st n = None"
  shows "classes st' n = None"
  using assms
  by (auto simp: instanceStep_def Let_def split: option.splits if_splits)

lemma instanceStep_untracked:
  assumes "imgHeight instanceImg = imgHeight predictionImg"
      "imgWidth instanceImg = imgWidth predictionImg"
    and "instId \<in> set (getdata instanceImg)"
    and "id2label labels (int (instId div 1000)) = Some l" "\<not> ignoreInEval l"
    and "classes st (name l) = None"
  shows "instanceStep labels avg masks predictionImg instanceImg instId st =
           (case avg (name l) of
              None \<Rightarrow> Inl (KeyError_avgClassSize (name l))
            | Some a \<Rightarrow> Inl (KeyError_classes (name l)))"
  using assms maskCount_pos [OF assms(3)]
  by (auto simp: instanceStep_def Let_def split: option.splits)

lemma instanceLoop_KeyError:
  assumes shape: "imgHeight instanceImg = imgHeight predictionImg"
      "imgWidth instanceImg = imgWidth predictionImg"
    and l: "id2label labels (int (instId div 1000)) = Some l" "\<not> ignoreInEval l"
  shows "set ids \<subseteq> set (getdata instanceImg) \<Longrightarrow> instId \<in> set ids \<Longrightarrow>
         classes st (name l) = None \<Longrightarrow>
         \<exists>e. instanceLoop labels avg masks predictionImg instanceImg ids st = Inl e \<and> isKeyError e"
proof (induction ids arbitrary: st)
  case Nil
  then show ?case by simp
next
  case (Cons i ids)
  from Cons.prems(1) have mem: "i \<in> set (getdata instanceImg)" by simp
  show ?case
  proof (cases "instanceStep labels avg masks predictionImg instanceImg i st")
    case (Inl e)
    then show ?thesis using instanceStep_Inl [OF shape mem Inl] by simp
  next
    case (Inr st1)
    have ne: "i \<noteq> instId"
    proof
      assume "i = instId"
      then have "\<exists>e. instanceStep labels avg masks predictionImg instanceImg i st = Inl e"
        using instanceStep_untracked [OF shape _ l Cons.prems(3), where masks = masks and avg = avg] mem
        by (auto split: option.splits)
      then show False using Inr by simp
    qed
    have "classes st1 (name l) = None"
      using instanceStep_None [OF Inr Cons.prems(3)] .
    then show ?thesis
      using Cons.IH [of st1] Cons.prems(1,2) ne Inr by simp
  qed
qed

text \<open>
  C10. Let the instance image hold an instance id greater than 1000 whose label is in the
  table, is evaluated, and has no instances; the names of the table are distinct and the
  prediction has the shape of the instance image. Then the accumulation, started from the
  statistics as constructed, ends with a failed dictionary lookup: the name of such a
  label has no entry among the classes, and the loop passes over ignored labels only.
\<close>

theorem evaluateInstances_KeyError:
  assumes "imgHeight instanceImg = imgHeight predictionImg"
    and "imgWidth instanceImg = imgWidth predictionImg"
    and "distinct (map name labels)"
    and "instId \<in> set (getdata instanceImg)" and "1000 < instId"
    and "id2label labels (int (instId div 1000)) = Some l"
    and "\<not> ignoreInEval l" and "\<not> hasInstances l"
  shows "classes (generateInstanceStats labels) (name l) = None
       \<and> (\<exists>e. evaluateInstances labels avg predictionImg instanceImg (generateInstanceStats labels)
                 = Inl e \<and> isKeyError e)"
proof -
  have l: "l \<in> set labels" using id2label_id [OF assms(6)] by simp
  have none: "classes (generateInstanceStats labels) (name l) = None"
    using generateInstanceStats_classes_None [OF assms(3) l assms(8)] .
  have mem: "instId \<in> set (instList (getdata instanceImg))"
    using assms(4,5) by (simp add: instList_set(1))
  have sub: "set (instList (getdata instanceImg)) \<subseteq> set (getdata instanceImg)"
    by (auto simp: instList_set(1))
  show ?thesis
    using instanceLoop_KeyError [OF assms(1,2,6,7) sub mem none] none
    by (simp add: evaluateInstances_def)
qed

theorem evaluateInstances_KeyError_witness:
  "imgHeight roadInstances = imgHeight carPrediction
   \<and> imgWidth roadInstances = imgWidth carPrediction
   \<and> distinct (map name exampleLabels)
   \<and> 1001 \<in> set (getdata roadInstances)
   \<and> id2label exampleLabels (int (1001 div 1000)) =
       Some \<lparr>name = ''road'', id' = 1, category = ''flat'', hasInstances = False, ignoreInEval = False\<rparr>
   \<and> classes (generateInstanceStats exampleLabels) ''road'' = None
   \<and> (\<exists>e. evaluateInstances exampleLabels exampleAvg carPrediction roadInstances
              (generateInstanceStats exampleLabels) = Inl e \<and> isKeyError e)"
proof -
  have lab: "id2label exampleLabels (int (1001 div 1000)) =
      Some \<lparr>name = ''road'', id' = 1, category = ''flat'', hasInstances = False, ignoreInEval = False\<rparr>"
    by (simp add: id2label_def exampleLabels_def)
  have sh: "imgHeight roadInstances = imgHeight carPrediction"
    "imgWidth roadInstances = imgWidth carPrediction"
    by (simp_all add: roadInstances_def carPrediction_def)
  have d: "distinct (map name exampleLabels)"
    by (simp add: exampleLabels_def)
  have mem: "1001 \<in> set (getdata roadInstances)"
    by (simp add: roadInstances_def)
  show ?thesis
    using evaluateInstances_KeyError [OF sh d mem _ lab, of exampleAvg] sh d mem lab
    by simp
qed

end
